theory Spec2Isabelle
  imports Main "HOL-Library.Monad_Syntax" "HOL-Library.AList" "HOL-Library.Char_ord"
    "HOL-Library.Product_Lexorder" "HOL-Library.Word" "HOL-Library.Multiset"
begin

section \<open>Python values used by the engine\<close>

text \<open>
  A Python function that can raise is modelled with result type \<open>'a option\<close>:
  \<open>None\<close> is "an exception propagates out of the call". The sources only ever catch
  \<open>Exception\<close> as a whole, so the kind of the exception is not recorded.
\<close>

text \<open>
  Scores are Python numbers: integers (the half-point terms of the evaluation are
  multiplied by an even weight, so every finite score is integral) and the two
  infinities \<open>float('inf')\<close> and \<open>-float('inf')\<close>.
\<close>

datatype score = NegInf | Fin int | PosInf

instantiation score :: linorder
begin

fun less_eq_score :: "score \<Rightarrow> score \<Rightarrow> bool" where
  "less_eq_score NegInf _ = True"
| "less_eq_score (Fin a) NegInf = False"
| "less_eq_score (Fin a) (Fin b) = (a \<le> b)"
| "less_eq_score (Fin a) PosInf = True"
| "less_eq_score PosInf PosInf = True"
| "less_eq_score PosInf _ = False"

definition less_score :: "score \<Rightarrow> score \<Rightarrow> bool" where
  "less_score a b = (a \<le> b \<and> \<not> b \<le> a)"

instance
proof
  fix x y z :: score
  show "(x < y) = (x \<le> y \<and> \<not> y \<le> x)" by (simp add: less_score_def)
  show "x \<le> x" by (cases x) simp_all
  show "x \<le> y \<Longrightarrow> y \<le> z \<Longrightarrow> x \<le> z" by (cases x; cases y; cases z) simp_all
  show "x \<le> y \<Longrightarrow> y \<le> x \<Longrightarrow> x = y" by (cases x; cases y) simp_all
  show "x \<le> y \<or> y \<le> x" by (cases x; cases y) auto
qed

end

fun score_neg :: "score \<Rightarrow> score" where
  "score_neg NegInf = PosInf"
| "score_neg (Fin a) = Fin (- a)"
| "score_neg PosInf = NegInf"

fun score_abs :: "score \<Rightarrow> score" where
  "score_abs NegInf = PosInf"
| "score_abs (Fin a) = Fin (abs a)"
| "score_abs PosInf = PosInf"

text \<open>Python list indexing: a negative index counts from the end, out of range raises.\<close>

definition py_norm :: "nat \<Rightarrow> int \<Rightarrow> int" where
  "py_norm n i = (if i < 0 then int n + i else i)"

definition py_index :: "'a list \<Rightarrow> int \<Rightarrow> 'a option" where
  "py_index xs i =
     (let j = py_norm (length xs) i
      in if 0 \<le> j \<and> j < int (length xs) then Some (xs ! nat j) else None)"

text \<open>
  \<open>str.upper\<close>, \<open>str.lower\<close> and \<open>str.isupper\<close> on a one-character string. Board cells,
  colours and piece types are ASCII characters; other characters have no case here.
\<close>

definition isupper :: "char \<Rightarrow> bool" where
  "isupper c = (65 \<le> (of_char c :: nat) \<and> (of_char c :: nat) \<le> 90)"

definition islower :: "char \<Rightarrow> bool" where
  "islower c = (97 \<le> (of_char c :: nat) \<and> (of_char c :: nat) \<le> 122)"

definition upper :: "char \<Rightarrow> char" where
  "upper c = (if islower c then char_of ((of_char c :: nat) - 32) else c)"

definition lower :: "char \<Rightarrow> char" where
  "lower c = (if isupper c then char_of ((of_char c :: nat) + 32) else c)"

text \<open>
  A Python value as far as a move can be one: \<open>None\<close>, an integer, a string or a tuple.
\<close>

datatype pyval = PNone | PInt int | PStr string | PTuple "pyval list"

fun truthy :: "pyval \<Rightarrow> bool" where
  "truthy PNone = False"
| "truthy (PInt n) = (n \<noteq> 0)"
| "truthy (PStr s) = (s \<noteq> [])"
| "truthy (PTuple vs) = (vs \<noteq> [])"

fun is_tuple :: "pyval \<Rightarrow> bool" where
  "is_tuple (PTuple vs) = True"
| "is_tuple _ = False"

text \<open>\<open>v[i]\<close> for a small non-negative constant \<open>i\<close>, on a tuple or a string.\<close>

fun py_item :: "pyval \<Rightarrow> nat \<Rightarrow> pyval option" where
  "py_item (PTuple vs) i = (if i < length vs then Some (vs ! i) else None)"
| "py_item (PStr s) i = (if i < length s then Some (PStr [s ! i]) else None)"
| "py_item _ i = None"

text \<open>\<open>a, b = v\<close>: the value must be an iterable of exactly two items.\<close>

fun unpack2 :: "pyval \<Rightarrow> (pyval \<times> pyval) option" where
  "unpack2 (PTuple [a, b]) = Some (a, b)"
| "unpack2 (PStr [a, b]) = Some (PStr [a], PStr [b])"
| "unpack2 _ = None"

fun unpack3 :: "pyval \<Rightarrow> (pyval \<times> pyval \<times> pyval) option" where
  "unpack3 (PTuple [a, b, c]) = Some (a, b, c)"
| "unpack3 (PStr [a, b, c]) = Some (PStr [a], PStr [b], PStr [c])"
| "unpack3 _ = None"

text \<open>A list index must be an integer.\<close>

fun as_int :: "pyval \<Rightarrow> int option" where
  "as_int (PInt n) = Some n"
| "as_int _ = None"

section \<open>Constants (config.py, pieces.py, ai.py)\<close>

definition BOARD_SIZE :: int where "BOARD_SIZE = 6"
definition EMPTY_SQUARE :: char where "EMPTY_SQUARE = CHR ''.''"
definition PROMOTION_PIECES_WHITE_STR :: "char list" where
  "PROMOTION_PIECES_WHITE_STR = [CHR ''R'', CHR ''N'', CHR ''B'']"
definition PROMOTION_PIECES_BLACK_STR :: "char list" where
  "PROMOTION_PIECES_BLACK_STR = [CHR ''r'', CHR ''n'', CHR ''b'']"
definition KNIGHT_MOVES :: "(int \<times> int) list" where
  "KNIGHT_MOVES = [(1, 2), (1, -2), (-1, 2), (-1, -2), (2, 1), (2, -1), (-2, 1), (-2, -1)]"
definition DIAGONAL_MOVES :: "(int \<times> int) list" where
  "DIAGONAL_MOVES = [(1, 1), (1, -1), (-1, 1), (-1, -1)]"
definition STRAIGHT_MOVES :: "(int \<times> int) list" where
  "STRAIGHT_MOVES = [(1, 0), (-1, 0), (0, 1), (0, -1)]"
definition KING_MOVES :: "(int \<times> int) list" where
  "KING_MOVES = DIAGONAL_MOVES @ STRAIGHT_MOVES"

text \<open>The tables of ai.py (not those of pieces.py, which ai.py does not import).\<close>

definition PIECE_VALUES :: "char \<rightharpoonup> int" where
  "PIECE_VALUES = map_of [(CHR ''P'', 100), (CHR ''N'', 320), (CHR ''B'', 330),
     (CHR ''R'', 500), (CHR ''Q'', 900), (CHR ''K'', 20000)]"
definition HAND_PIECE_VALUES :: "char \<rightharpoonup> int" where
  "HAND_PIECE_VALUES = map_of [(CHR ''P'', 150), (CHR ''N'', 400), (CHR ''B'', 410),
     (CHR ''R'', 650), (CHR ''Q'', 1000)]"

definition piece_value :: "char \<Rightarrow> int" where
  "piece_value t = (case PIECE_VALUES t of None \<Rightarrow> 0 | Some v \<Rightarrow> v)"
definition hand_piece_value :: "char \<Rightarrow> int" where
  "hand_piece_value t = (case HAND_PIECE_VALUES t of None \<Rightarrow> 0 | Some v \<Rightarrow> v)"

definition CENTER_SQUARES :: "(int \<times> int) list" where
  "CENTER_SQUARES = [(2, 2), (2, 3), (3, 2), (3, 3)]"
definition CENTER_BONUS :: int where "CENTER_BONUS = 15"
definition KING_SAFETY_BONUS :: int where "KING_SAFETY_BONUS = 8"
definition PAWN_STRUCTURE_BONUS :: int where "PAWN_STRUCTURE_BONUS = 5"
definition ATTACK_KING_ZONE_BONUS :: int where "ATTACK_KING_ZONE_BONUS = 20"
definition DROP_THREAT_BONUS :: int where "DROP_THREAT_BONUS = 25"
definition CHECKMATE_SCORE :: int where "CHECKMATE_SCORE = 1000000"
definition STALEMATE_SCORE :: int where "STALEMATE_SCORE = 0"
definition MAX_QUIESCENCE_DEPTH :: nat where "MAX_QUIESCENCE_DEPTH = 4"

section \<open>Moves and game states (gamestate.py, utils.py)\<close>

type_synonym square = "int \<times> int"

text \<open>
  A move of the generator: \<open>((r1, f1), (r2, f2), promotion)\<close> with the promotion
  \<open>None\<close> or a one-character string, or \<open>('drop', piece_code, (r, f))\<close>.
\<close>

datatype move = Normal square square "char option" | Drop string square

fun py_of_move :: "move \<Rightarrow> pyval" where
  "py_of_move (Normal (r1, f1) (r2, f2) p) =
     PTuple [PTuple [PInt r1, PInt f1], PTuple [PInt r2, PInt f2],
             (case p of None \<Rightarrow> PNone | Some c \<Rightarrow> PStr [c])]"
| "py_of_move (Drop code (r, f)) = PTuple [PStr ''drop'', PStr code, PTuple [PInt r, PInt f]]"

text \<open>
  A dictionary is an association list in insertion order (the order in which Python
  iterates it); \<open>d[k] = v\<close> keeps the place of an existing key and appends a new one.
\<close>

type_synonym hand = "(char \<times> int) list"

definition dict_get_or :: "('k \<times> 'v) list \<Rightarrow> 'k \<Rightarrow> 'v \<Rightarrow> 'v" where
  "dict_get_or d k dflt = (case map_of d k of None \<Rightarrow> dflt | Some v \<Rightarrow> v)"

text \<open>
  The fields of \<open>GameState\<close> that the rules and the search read or write; the fields
  of the user interface (selection, highlights, messages, undo stack) are left out.
  \<open>hands = None\<close> is an object without a readable \<open>hands\<close> attribute (reading it
  raises), as the fallback \<open>GameState\<close> class of ai.py is. The last five fields are the
  attributes that only \<open>get_position_hash\<close> reads, through \<open>getattr\<close> with a default:
  a \<open>GameState\<close> of gamestate.py does not define them and then has the defaults
  \<open>PNone\<close> and \<open>False\<close>.
\<close>

record gamestate =
  board :: "char list list"
  current_turn :: char
  hands :: "(char \<times> hand) list option"
  king_pos :: "char \<rightharpoonup> square"
  checkmate :: bool
  stalemate :: bool
  last_move :: "move option"
  move_log :: "move list"
  needs_promotion_choice :: bool
  promotion_square :: "square option"
  last_move_for_promotion :: "move option"
  all_legal_moves_cache :: "move list option"
  en_passant_target :: pyval
  can_castle_white_kingside :: bool
  can_castle_white_queenside :: bool
  can_castle_black_kingside :: bool
  can_castle_black_queenside :: bool

definition get_piece_color :: "char \<Rightarrow> char option" where
  "get_piece_color piece =
     (if piece = EMPTY_SQUARE then None
      else Some (if isupper piece then CHR ''w'' else CHR ''b''))"

definition is_on_board :: "int \<Rightarrow> int \<Rightarrow> bool" where
  "is_on_board r f = (0 \<le> r \<and> r < BOARD_SIZE \<and> 0 \<le> f \<and> f < BOARD_SIZE)"

definition get_opposite_color :: "char \<Rightarrow> char" where
  "get_opposite_color color = (if color = CHR ''w'' then CHR ''b'' else CHR ''w'')"

text \<open>\<open>board[r][f]\<close> and \<open>board[r][f] = x\<close>.\<close>

definition cell :: "char list list \<Rightarrow> int \<Rightarrow> int \<Rightarrow> char option" where
  "cell b r f = do { row \<leftarrow> py_index b r; py_index row f }"

definition set_cell :: "char list list \<Rightarrow> int \<Rightarrow> int \<Rightarrow> char \<Rightarrow> char list list option" where
  "set_cell b r f x = do {
     row \<leftarrow> py_index b r;
     _ \<leftarrow> py_index row f;
     Some (b[nat (py_norm (length b) r) := row[nat (py_norm (length row) f) := x]])
   }"


subsection \<open>Applying a move: \<open>GameState.make_move\<close>\<close>

text \<open>
  \<open>make_move\<close> answers \<open>False\<close> (the move is rejected), \<open>True\<close> with a promotion
  choice pending (the turn is not switched and the game-over test is skipped), or
  \<open>True\<close> after a completed move.
\<close>

datatype move_outcome = Rejected | Pending | Completed

definition ensure_hand_keys :: "hand \<Rightarrow> hand" where
  "ensure_hand_keys h =
     fold (\<lambda>p h'. if map_of h' p = None then h' @ [(p, 0)] else h') ''PNBRQ'' h"

fun make_move_body :: "gamestate \<Rightarrow> move \<Rightarrow> (move_outcome \<times> gamestate) option" where
  "make_move_body gs0 (Drop piece_code (r, f)) =
     (let gs = gs0\<lparr>all_legal_moves_cache := None\<rparr> in
      if needs_promotion_choice gs then Some (Rejected, gs)
      else do {
        color \<leftarrow> py_index piece_code 0;
        piece_type_upper \<leftarrow> py_index piece_code 1;
        target \<leftarrow> cell (board gs) r f;
        if target \<noteq> EMPTY_SQUARE then Some (Rejected, gs)
        else if color \<noteq> current_turn gs then Some (Rejected, gs)
        else do {
          hs \<leftarrow> hands gs;
          hand \<leftarrow> map_of hs color;
          if dict_get_or hand piece_type_upper 0 \<le> 0 then Some (Rejected, gs)
          else if piece_type_upper = CHR ''P''
                  \<and> r = (if color = CHR ''w'' then 0 else BOARD_SIZE - 1)
          then Some (Rejected, gs)
          else do {
            b' \<leftarrow> set_cell (board gs) r f
                    (if color = CHR ''w'' then upper piece_type_upper
                     else lower piece_type_upper);
            Some (Completed, gs\<lparr>
              board := b',
              hands := Some (AList.update color
                 (AList.update piece_type_upper (dict_get_or hand piece_type_upper 0 - 1) hand)
                 hs),
              last_move := Some (Drop piece_code (r, f)),
              move_log := move_log gs @ [Drop piece_code (r, f)],
              current_turn := get_opposite_color (current_turn gs)\<rparr>)
          }
        }
      })"
| "make_move_body gs0 (Normal (r1, f1) (r2, f2) promotion_choice) =
     (let gs = gs0\<lparr>all_legal_moves_cache := None\<rparr> in
      if needs_promotion_choice gs then Some (Rejected, gs)
      else do {
        piece \<leftarrow> cell (board gs) r1 f1;
        if piece = EMPTY_SQUARE then Some (Rejected, gs)
        else do {
          let moving_color = (if isupper piece then CHR ''w'' else CHR ''b'');
          if moving_color \<noteq> current_turn gs then Some (Rejected, gs)
          else do {
            target_piece \<leftarrow> cell (board gs) r2 f2;
            let is_capture = (target_piece \<noteq> EMPTY_SQUARE);
            let captured_type = upper target_piece;
            let takes = (is_capture \<and> captured_type \<noteq> CHR ''K'');
            b1 \<leftarrow> set_cell (board gs) r1 f1 EMPTY_SQUARE;
            hands2 \<leftarrow> (if takes then do {
                          hs \<leftarrow> hands gs;
                          let hands1 = (if map_of hs moving_color = None
                                        then hs @ [(moving_color, [])] else hs);
                          let hand1 = ensure_hand_keys (dict_get_or hands1 moving_color []);
                          Some (Some (AList.update moving_color
                                 (AList.update captured_type
                                    (dict_get_or hand1 captured_type 0 + 1) hand1) hands1))
                        } else Some (hands gs));
            let kp = (if upper piece = CHR ''K'' then (king_pos gs)(moving_color \<mapsto> (r2, f2))
                      else king_pos gs);
            let promotion_rank = (if moving_color = CHR ''w'' then 0 else BOARD_SIZE - 1);
            if upper piece = CHR ''P'' \<and> r2 = promotion_rank then
              (case promotion_choice of
                 Some choice \<Rightarrow>
                   if choice \<notin> set (if moving_color = CHR ''w'' then PROMOTION_PIECES_WHITE_STR
                                    else PROMOTION_PIECES_BLACK_STR)
                   then do {
                     b2 \<leftarrow> set_cell b1 r1 f1 piece;
                     Some (Rejected, gs\<lparr>board := b2, king_pos := kp,
                       hands := (if takes
                                 then map_option (\<lambda>hs.
                                        AList.update moving_color
                                          (AList.update captured_type
                                             (dict_get_or (dict_get_or hs moving_color [])
                                                captured_type 0 - 1)
                                             (dict_get_or hs moving_color [])) hs) hands2
                                 else hands2)\<rparr>)
                   }
                   else do {
                     b2 \<leftarrow> set_cell b1 r2 f2 choice;
                     Some (Completed, gs\<lparr>board := b2, hands := hands2, king_pos := kp,
                       needs_promotion_choice := False, promotion_square := None,
                       last_move_for_promotion := None,
                       last_move := Some (Normal (r1, f1) (r2, f2) promotion_choice),
                       move_log := move_log gs @ [Normal (r1, f1) (r2, f2) promotion_choice],
                       current_turn := get_opposite_color (current_turn gs)\<rparr>)
                   }
               | None \<Rightarrow> do {
                   b2 \<leftarrow> set_cell b1 r2 f2 piece;
                   Some (Pending, gs\<lparr>board := b2, hands := hands2, king_pos := kp,
                     needs_promotion_choice := True, promotion_square := Some (r2, f2),
                     last_move_for_promotion := Some (Normal (r1, f1) (r2, f2) None),
                     last_move := Some (Normal (r1, f1) (r2, f2) None),
                     move_log := move_log gs @ [Normal (r1, f1) (r2, f2) None]\<rparr>)
                 })
            else do {
              b2 \<leftarrow> set_cell b1 r2 f2 piece;
              Some (Completed, gs\<lparr>board := b2, hands := hands2, king_pos := kp,
                needs_promotion_choice := False,
                last_move := Some (Normal (r1, f1) (r2, f2) promotion_choice),
                move_log := move_log gs @ [Normal (r1, f1) (r2, f2) promotion_choice],
                current_turn := get_opposite_color (current_turn gs)\<rparr>)
            }
          }
        }
      })"

text \<open>
  \<open>make_move(move, is_check_game_over=False)\<close>, the only form the rules and the search
  use on a simulated state: the answer and the state after the call.
\<close>

definition make_move :: "gamestate \<Rightarrow> move \<Rightarrow> (bool \<times> gamestate) option" where
  "make_move gs m = do {
     (outcome, gs') \<leftarrow> make_move_body gs m;
     Some (outcome \<noteq> Rejected, gs')
   }"


subsection \<open>Check detection\<close>

text \<open>Loops whose body can raise or return early.\<close>

fun any_opt :: "('a \<Rightarrow> bool option) \<Rightarrow> 'a list \<Rightarrow> bool option" where
  "any_opt p [] = Some False"
| "any_opt p (x # xs) = do { b \<leftarrow> p x; if b then Some True else any_opt p xs }"

fun fold_opt :: "('a \<Rightarrow> 's \<Rightarrow> 's option) \<Rightarrow> 'a list \<Rightarrow> 's \<Rightarrow> 's option" where
  "fold_opt f [] s = Some s"
| "fold_opt f (x # xs) s = do { s' \<leftarrow> f x s; fold_opt f xs s' }"

fun concat_map_opt :: "('a \<Rightarrow> 'b list option) \<Rightarrow> 'a list \<Rightarrow> 'b list option" where
  "concat_map_opt f [] = Some []"
| "concat_map_opt f (x # xs) = do { ys \<leftarrow> f x; zs \<leftarrow> concat_map_opt f xs; Some (ys @ zs) }"

fun filter_opt :: "('a \<Rightarrow> bool option) \<Rightarrow> 'a list \<Rightarrow> 'a list option" where
  "filter_opt p [] = Some []"
| "filter_opt p (x # xs) =
     do { b \<leftarrow> p x; ys \<leftarrow> filter_opt p xs; Some (if b then x # ys else ys) }"

text \<open>\<open>range(BOARD_SIZE)\<close> and the squares of the two nested loops over it.\<close>

definition board_range :: "int list" where
  "board_range = [0, 1, 2, 3, 4, 5]"

definition all_squares :: "square list" where
  "all_squares = concat (map (\<lambda>r. map (\<lambda>f. (r, f)) board_range) board_range)"

text \<open>
  The squares a \<open>while is_on_board(cr, cf)\<close> loop visits from \<open>(r, f)\<close> in a direction
  of unit steps: at most six, up to the first one off the board.
\<close>

definition ray :: "int \<Rightarrow> int \<Rightarrow> int \<times> int \<Rightarrow> square list" where
  "ray r f d = takeWhile (\<lambda>(a, b). is_on_board a b)
                 (map (\<lambda>k. (r + k * fst d, f + k * snd d)) [1, 2, 3, 4, 5, 6])"

definition piece_on :: "char list list \<Rightarrow> int \<Rightarrow> int \<Rightarrow> char \<Rightarrow> bool option" where
  "piece_on b r f p =
     (if is_on_board r f then do { c \<leftarrow> cell b r f; Some (c = p) } else Some False)"

fun ray_attacked :: "char list list \<Rightarrow> char \<Rightarrow> char \<Rightarrow> square list \<Rightarrow> bool option" where
  "ray_attacked b p1 p2 [] = Some False"
| "ray_attacked b p1 p2 ((cr, cf) # rest) = do {
     piece \<leftarrow> cell b cr cf;
     if piece \<noteq> EMPTY_SQUARE then Some (piece = p1 \<or> piece = p2)
     else ray_attacked b p1 p2 rest
   }"

definition internal_is_square_attacked ::
  "char list list \<Rightarrow> int \<Rightarrow> int \<Rightarrow> char \<Rightarrow> bool option" where
  "internal_is_square_attacked b r f attacker_color =
     (let w = (attacker_color = CHR ''w'');
          pawn_dir = (if w then - 1 else 1 :: int);
          queen_piece = (if w then CHR ''Q'' else CHR ''q'')
      in do {
        by_pawn \<leftarrow> any_opt (\<lambda>df. piece_on b (r - pawn_dir) (f + df)
                               (if w then CHR ''P'' else CHR ''p'')) [- 1, 1];
        if by_pawn then Some True else do {
        by_knight \<leftarrow> any_opt (\<lambda>(dr, df). piece_on b (r + dr) (f + df)
                                 (if w then CHR ''N'' else CHR ''n'')) KNIGHT_MOVES;
        if by_knight then Some True else do {
        by_diag \<leftarrow> any_opt (\<lambda>d. ray_attacked b (if w then CHR ''B'' else CHR ''b'')
                                 queen_piece (ray r f d)) DIAGONAL_MOVES;
        if by_diag then Some True else do {
        by_line \<leftarrow> any_opt (\<lambda>d. ray_attacked b (if w then CHR ''R'' else CHR ''r'')
                                 queen_piece (ray r f d)) STRAIGHT_MOVES;
        if by_line then Some True
        else any_opt (\<lambda>(dr, df). piece_on b (r + dr) (f + df)
                        (if w then CHR ''K'' else CHR ''k'')) KING_MOVES
        }}}
      })"

definition find_kings :: "gamestate \<Rightarrow> gamestate option" where
  "find_kings gs = do {
     kp \<leftarrow> fold_opt (\<lambda>(r, f) kp. do {
              piece \<leftarrow> cell (board gs) r f;
              Some (if piece = CHR ''K'' then kp(CHR ''w'' \<mapsto> (r, f))
                    else if piece = CHR ''k'' then kp(CHR ''b'' \<mapsto> (r, f))
                    else kp)
            }) all_squares Map.empty;
     Some (gs\<lparr>king_pos := kp\<rparr>)
   }"

text \<open>\<open>is_in_check\<close> looks the kings up again when the king is not recorded.\<close>

definition is_in_check :: "gamestate \<Rightarrow> char \<Rightarrow> (bool \<times> gamestate) option" where
  "is_in_check gs color =
     (case king_pos gs color of
        Some (kr, kf) \<Rightarrow> do {
          a \<leftarrow> internal_is_square_attacked (board gs) kr kf (get_opposite_color color);
          Some (a, gs)
        }
      | None \<Rightarrow> do {
          gs1 \<leftarrow> find_kings gs;
          (case king_pos gs1 color of
             None \<Rightarrow> Some (False, gs1)
           | Some (kr, kf) \<Rightarrow> do {
               a \<leftarrow> internal_is_square_attacked (board gs1) kr kf (get_opposite_color color);
               Some (a, gs1)
             })
        })"

subsection \<open>Move generation\<close>

definition free_or_enemy :: "char \<Rightarrow> char \<Rightarrow> bool" where
  "free_or_enemy target color =
     (target = EMPTY_SQUARE \<or> get_piece_color target \<noteq> Some color)"

definition pawn_target :: "square \<Rightarrow> square \<Rightarrow> char \<Rightarrow> move list" where
  "pawn_target src dst color =
     (if fst dst = (if color = CHR ''w'' then 0 else BOARD_SIZE - 1)
      then map (\<lambda>p. Normal src dst (Some p))
             (if color = CHR ''w'' then PROMOTION_PIECES_WHITE_STR
              else PROMOTION_PIECES_BLACK_STR)
      else [Normal src dst None])"

definition get_pawn_moves :: "char list list \<Rightarrow> int \<Rightarrow> int \<Rightarrow> char \<Rightarrow> move list option" where
  "get_pawn_moves b r f color =
     (let direction = (if color = CHR ''w'' then - 1 else 1 :: int) in do {
        forward \<leftarrow>
          (if is_on_board (r + direction) f then do {
             t \<leftarrow> cell b (r + direction) f;
             Some (if t = EMPTY_SQUARE then pawn_target (r, f) (r + direction, f) color else [])
           } else Some []);
        captures \<leftarrow> concat_map_opt (\<lambda>df.
          if is_on_board (r + direction) (f + df) then do {
            t \<leftarrow> cell b (r + direction) (f + df);
            Some (if t \<noteq> EMPTY_SQUARE \<and> get_piece_color t \<noteq> Some color
                  then pawn_target (r, f) (r + direction, f + df) color else [])
          } else Some []) [- 1, 1];
        Some (forward @ captures)
      })"

definition get_step_moves ::
  "char list list \<Rightarrow> int \<Rightarrow> int \<Rightarrow> char \<Rightarrow> (int \<times> int) list \<Rightarrow> move list option" where
  "get_step_moves b r f color deltas =
     concat_map_opt (\<lambda>(dr, df).
       if is_on_board (r + dr) (f + df) then do {
         t \<leftarrow> cell b (r + dr) (f + df);
         Some (if free_or_enemy t color then [Normal (r, f) (r + dr, f + df) None] else [])
       } else Some []) deltas"

definition get_knight_moves :: "char list list \<Rightarrow> int \<Rightarrow> int \<Rightarrow> char \<Rightarrow> move list option" where
  "get_knight_moves b r f color = get_step_moves b r f color KNIGHT_MOVES"

definition get_king_moves :: "char list list \<Rightarrow> int \<Rightarrow> int \<Rightarrow> char \<Rightarrow> move list option" where
  "get_king_moves b r f color = get_step_moves b r f color KING_MOVES"

fun slide :: "char list list \<Rightarrow> square \<Rightarrow> char \<Rightarrow> square list \<Rightarrow> move list option" where
  "slide b src color [] = Some []"
| "slide b src color ((nr, nf) # rest) = do {
     t \<leftarrow> cell b nr nf;
     if t = EMPTY_SQUARE
     then do { ms \<leftarrow> slide b src color rest; Some (Normal src (nr, nf) None # ms) }
     else if get_piece_color t \<noteq> Some color then Some [Normal src (nr, nf) None]
     else Some []
   }"

definition get_sliding_moves ::
  "char list list \<Rightarrow> int \<Rightarrow> int \<Rightarrow> char \<Rightarrow> (int \<times> int) list \<Rightarrow> move list option" where
  "get_sliding_moves b r f color directions =
     concat_map_opt (\<lambda>d. slide b (r, f) color (ray r f d)) directions"

definition piece_moves :: "char list list \<Rightarrow> int \<Rightarrow> int \<Rightarrow> char \<Rightarrow> char \<Rightarrow> move list option" where
  "piece_moves b r f color piece_type =
     (if piece_type = CHR ''P'' then get_pawn_moves b r f color
      else if piece_type = CHR ''N'' then get_knight_moves b r f color
      else if piece_type = CHR ''B'' then get_sliding_moves b r f color DIAGONAL_MOVES
      else if piece_type = CHR ''R'' then get_sliding_moves b r f color STRAIGHT_MOVES
      else if piece_type = CHR ''Q''
        then get_sliding_moves b r f color (DIAGONAL_MOVES @ STRAIGHT_MOVES)
      else if piece_type = CHR ''K'' then get_king_moves b r f color
      else Some [])"

definition drop_moves :: "char list list \<Rightarrow> char \<Rightarrow> char \<times> int \<Rightarrow> move list option" where
  "drop_moves b color item =
     (case item of (piece_type_upper, cnt) \<Rightarrow>
        if cnt > 0 then
          concat_map_opt (\<lambda>(r, f).
            if piece_type_upper = CHR ''P''
               \<and> r = (if color = CHR ''w'' then 0 else BOARD_SIZE - 1) then Some []
            else do {
              t \<leftarrow> cell b r f;
              Some (if t = EMPTY_SQUARE then [Drop [color, piece_type_upper] (r, f)] else [])
            }) all_squares
        else Some [])"

definition generate_all_pseudo_legal_moves :: "gamestate \<Rightarrow> char \<Rightarrow> move list option" where
  "generate_all_pseudo_legal_moves gs color = do {
     board_moves \<leftarrow> concat_map_opt (\<lambda>(r, f). do {
        piece \<leftarrow> cell (board gs) r f;
        if piece \<noteq> EMPTY_SQUARE \<and> get_piece_color piece = Some color
        then piece_moves (board gs) r f color (upper piece)
        else Some []
      }) all_squares;
     hs \<leftarrow> hands gs;
     drops \<leftarrow> concat_map_opt (drop_moves (board gs) color) (dict_get_or hs color []);
     Some (board_moves @ drops)
   }"

text \<open>
  \<open>GameState.copy\<close>: a new object with an empty move log and no cached move list. When
  the hands cannot be copied, the method catches the exception and starts from an empty
  board, empty hands and no king positions.
\<close>

definition copy_state :: "gamestate \<Rightarrow> gamestate" where
  "copy_state gs =
     (let fresh = gs\<lparr>move_log := [], all_legal_moves_cache := None,
                     en_passant_target := PNone,
                     can_castle_white_kingside := False, can_castle_white_queenside := False,
                     can_castle_black_kingside := False, can_castle_black_queenside := False\<rparr>
      in case hands gs of
           Some hs \<Rightarrow> fresh
         | None \<Rightarrow> fresh\<lparr>
             board := replicate (nat BOARD_SIZE) (replicate (nat BOARD_SIZE) EMPTY_SQUARE),
             hands := Some [(CHR ''w'', []), (CHR ''b'', [])],
             king_pos := Map.empty\<rparr>)"

text \<open>
  \<open>get_all_legal_moves\<close> answers from \<open>_all_legal_moves_cache\<close> when it is filled, and
  fills it otherwise: the call changes the object it is made on.
\<close>

definition get_all_legal_moves :: "gamestate \<Rightarrow> (move list \<times> gamestate) option" where
  "get_all_legal_moves gs =
     (case all_legal_moves_cache gs of
        Some ms \<Rightarrow> Some (ms, gs)
      | None \<Rightarrow>
          if needs_promotion_choice gs then Some ([], gs\<lparr>all_legal_moves_cache := Some []\<rparr>)
          else do {
            pseudo \<leftarrow> generate_all_pseudo_legal_moves gs (current_turn gs);
            legal \<leftarrow> filter_opt (\<lambda>m. do {
                (move_made, temp) \<leftarrow> make_move (copy_state gs) m;
                if move_made then do {
                  (chk, _) \<leftarrow> is_in_check temp (current_turn gs);
                  Some (\<not> chk)
                } else Some False
              }) pseudo;
            Some (legal, gs\<lparr>all_legal_moves_cache := Some legal\<rparr>)
          })"

definition check_game_over :: "gamestate \<Rightarrow> (bool \<times> gamestate) option" where
  "check_game_over gs =
     (if needs_promotion_choice gs then Some (False, gs)
      else do {
        (legal_moves, gs1) \<leftarrow> get_all_legal_moves gs;
        if legal_moves = [] then do {
          (chk, gs2) \<leftarrow> is_in_check gs1 (current_turn gs1);
          Some (True, if chk then gs2\<lparr>checkmate := True\<rparr> else gs2\<lparr>stalemate := True\<rparr>)
        }
        else Some (False, gs1\<lparr>checkmate := False, stalemate := False\<rparr>)
      })"

text \<open>
  \<open>complete_promotion\<close>. The colour whose promotion pieces are accepted is the opposite
  of \<open>current_turn\<close>, as the source computes it.
\<close>

definition promotion_log_update :: "gamestate \<Rightarrow> square \<Rightarrow> char \<Rightarrow> gamestate option" where
  "promotion_log_update gs sq chosen_piece_char =
     (if move_log gs \<noteq> [] \<and> last_move_for_promotion gs \<noteq> None then
        (case last_move_for_promotion gs of
           Some (Normal s d p) \<Rightarrow>
             if last (move_log gs) = Normal s d p
             then Some (gs\<lparr>move_log := butlast (move_log gs)
                                @ [Normal s d (Some chosen_piece_char)],
                            last_move := Some (Normal s d (Some chosen_piece_char))\<rparr>)
             else Some (gs\<lparr>last_move := Some (Normal s d (Some chosen_piece_char))\<rparr>)
         | _ \<Rightarrow> None)
      else
        (case last_move gs of
           Some (Normal s d p) \<Rightarrow>
             Some (if d = sq then gs\<lparr>last_move := Some (Normal s d (Some chosen_piece_char))\<rparr>
                   else gs)
         | _ \<Rightarrow> Some gs))"

definition complete_promotion :: "gamestate \<Rightarrow> char \<Rightarrow> (bool \<times> gamestate) option" where
  "complete_promotion gs chosen_piece_char =
     (case promotion_square gs of
        None \<Rightarrow> Some (False, gs)
      | Some (r, f) \<Rightarrow>
          if \<not> needs_promotion_choice gs then Some (False, gs)
          else if chosen_piece_char \<notin> set
                    (if get_opposite_color (current_turn gs) = CHR ''w''
                     then PROMOTION_PIECES_WHITE_STR else PROMOTION_PIECES_BLACK_STR)
          then Some (False, gs)
          else do {
            b \<leftarrow> set_cell (board gs) r f chosen_piece_char;
            gs2 \<leftarrow> promotion_log_update (gs\<lparr>board := b\<rparr>) (r, f) chosen_piece_char;
            (_, gs3) \<leftarrow> check_game_over (gs2\<lparr>needs_promotion_choice := False,
                           promotion_square := None, last_move_for_promotion := None,
                           all_legal_moves_cache := None\<rparr>);
            Some (True, gs3)
          })"


section \<open>The state hasher: \<open>get_position_hash\<close> (ai.py)\<close>

text \<open>
  The tuple that is hashed: the rows of the board joined to strings, the items of the
  two hands sorted, the side to move, the en-passant target and the four castling
  flags.
\<close>

type_synonym state_tuple =
  "string list \<times> (char \<times> int) list \<times> (char \<times> int) list \<times> char \<times> pyval
     \<times> (bool \<times> bool \<times> bool \<times> bool)"

definition state_tuple_of :: "gamestate \<Rightarrow> state_tuple option" where
  "state_tuple_of gs = do {
     hs \<leftarrow> hands gs;
     Some (board gs,
           sort (dict_get_or hs (CHR ''w'') []),
           sort (dict_get_or hs (CHR ''b'') []),
           current_turn gs,
           en_passant_target gs,
           (can_castle_white_kingside gs, can_castle_white_queenside gs,
            can_castle_black_kingside gs, can_castle_black_queenside gs))
   }"

text \<open>
  \<open>hexdigest\<close>: the 256 bits of a digest as 64 lower-case hexadecimal digits, the most
  significant first.
\<close>

definition hex_digit :: "nat \<Rightarrow> char" where
  "hex_digit n = (if n < 10 then char_of (48 + n) else char_of (87 + n))"

definition hexdigest :: "256 word \<Rightarrow> string" where
  "hexdigest w = map (\<lambda>i. hex_digit (unat (drop_bit (4 * (63 - i)) w) mod 16)) [0..<64]"

text \<open>
  The parameter \<open>sha\<close> is the library function that is applied to the tuple: SHA-256 of
  the UTF-8 bytes of \<open>repr(state_tuple)\<close>. When a field cannot be read the function
  catches the exception and answers the string \<open>error_hash\<close>.
\<close>

definition get_position_hash :: "(state_tuple \<Rightarrow> 256 word) \<Rightarrow> gamestate \<Rightarrow> string" where
  "get_position_hash sha gs =
     (case state_tuple_of gs of
        Some t \<Rightarrow> hexdigest (sha t)
      | None \<Rightarrow> ''error_hash'')"

section \<open>The evaluator: \<open>evaluate_position\<close> (ai.py)\<close>

text \<open>Material of the stalemate branch: the board, then the two hands.\<close>

definition board_material :: "char list list \<Rightarrow> (int \<times> int) option" where
  "board_material b =
     fold_opt (\<lambda>(r, c) (white_material, black_material). do {
        piece \<leftarrow> cell b r c;
        Some (if piece \<noteq> EMPTY_SQUARE then
                (if get_piece_color piece = Some (CHR ''w'')
                 then (white_material + piece_value (upper piece), black_material)
                 else (white_material, black_material + piece_value (upper piece)))
              else (white_material, black_material))
      }) all_squares (0, 0)"

definition hand_material :: "hand \<Rightarrow> int" where
  "hand_material h = fold (\<lambda>(piece, cnt) m. m + hand_piece_value (upper piece) * cnt) h 0"

definition stalemate_score :: "gamestate \<Rightarrow> score option" where
  "stalemate_score gs = do {
     (wb, bb) \<leftarrow> board_material (board gs);
     hs \<leftarrow> hands gs;
     let white_material = wb + hand_material (dict_get_or hs (CHR ''w'') []);
     let black_material = bb + hand_material (dict_get_or hs (CHR ''b'') []);
     let material_diff = white_material - black_material;
     Some (if current_turn gs = CHR ''w'' \<and> material_diff > 100 then Fin (- 10000)
           else if current_turn gs = CHR ''b'' \<and> material_diff < - 100 then Fin 10000
           else Fin 0)
   }"

text \<open>The terms of a position that is not terminal.\<close>

definition king_coords :: "gamestate \<Rightarrow> char \<Rightarrow> int \<times> int" where
  "king_coords gs color = (case king_pos gs color of None \<Rightarrow> (- 1, - 1) | Some p \<Rightarrow> p)"

definition chebyshev :: "int \<Rightarrow> int \<Rightarrow> int \<Rightarrow> int \<Rightarrow> int" where
  "chebyshev r c r' c' = max (abs (r - r')) (abs (c - c'))"

text \<open>
  The first pass over the board: the score, the total material and the squares of the
  white and of the black pawns.
\<close>

definition board_terms :: "gamestate \<Rightarrow> (int \<times> int \<times> square list \<times> square list) option" where
  "board_terms gs =
     (case (king_coords gs (CHR ''w''), king_coords gs (CHR ''b'')) of
        ((wkr, wkc), (bkr, bkc)) \<Rightarrow>
     fold_opt (\<lambda>(r, c) (score, total_material, white_pawns, black_pawns). do {
        piece \<leftarrow> cell (board gs) r c;
        Some (if piece = EMPTY_SQUARE then (score, total_material, white_pawns, black_pawns)
              else if get_piece_color piece = Some (CHR ''w'') then
                (score + piece_value (upper piece)
                   + (if (r, c) \<in> set CENTER_SQUARES then CENTER_BONUS else 0)
                   + (if wkr \<noteq> - 1 \<and> upper piece \<noteq> CHR ''K'' \<and> chebyshev r c wkr wkc \<le> 2
                      then KING_SAFETY_BONUS else 0),
                 total_material + piece_value (upper piece),
                 (if upper piece = CHR ''P'' then white_pawns @ [(r, c)] else white_pawns),
                 black_pawns)
              else
                (score - piece_value (upper piece)
                   - (if (r, c) \<in> set CENTER_SQUARES then CENTER_BONUS else 0)
                   - (if bkr \<noteq> - 1 \<and> upper piece \<noteq> CHR ''K'' \<and> chebyshev r c bkr bkc \<le> 2
                      then KING_SAFETY_BONUS else 0),
                 total_material + piece_value (upper piece),
                 white_pawns,
                 (if upper piece = CHR ''P'' then black_pawns @ [(r, c)] else black_pawns)))
      }) all_squares (0, 0, [], []))"

definition hand_count :: "hand \<Rightarrow> int" where
  "hand_count h = sum_list (map snd h)"

definition hand_board_value :: "hand \<Rightarrow> int" where
  "hand_board_value h = fold (\<lambda>(piece, cnt) m. m + piece_value (upper piece) * cnt) h 0"

definition cell_is :: "char list list \<Rightarrow> int \<Rightarrow> int \<Rightarrow> char \<Rightarrow> bool option" where
  "cell_is b r c p = do { x \<leftarrow> cell b r c; Some (x = p) }"

text \<open>An opposing pawn on the scanned row, in the file of the pawn or a neighbouring one.\<close>

definition pawn_ahead :: "char list list \<Rightarrow> int \<Rightarrow> char \<Rightarrow> int \<Rightarrow> bool option" where
  "pawn_ahead b c p scan_r = do {
     here \<leftarrow> cell_is b scan_r c p;
     if here then Some True else do {
       left \<leftarrow> (if c > 0 then cell_is b scan_r (c - 1) p else Some False);
       if left then Some True
       else if c < BOARD_SIZE - 1 then cell_is b scan_r (c + 1) p else Some False
     }
   }"

definition connected_bonus :: "char list list \<Rightarrow> int \<Rightarrow> int \<Rightarrow> char \<Rightarrow> int option" where
  "connected_bonus b r c p = do {
     left \<leftarrow> (if c > 0 then cell_is b r (c - 1) p else Some False);
     right \<leftarrow> (if c < BOARD_SIZE - 1 then cell_is b r (c + 1) p else Some False);
     Some ((if left then PAWN_STRUCTURE_BONUS else 0)
           + (if right then PAWN_STRUCTURE_BONUS else 0))
   }"

definition white_pawn_term :: "char list list \<Rightarrow> square \<Rightarrow> int option" where
  "white_pawn_term b sq = (case sq of (r, c) \<Rightarrow> do {
     conn \<leftarrow> connected_bonus b r c (CHR ''P'');
     blocked \<leftarrow> any_opt (pawn_ahead b c (CHR ''p'')) (rev [0..r - 1]);
     Some (conn + (if blocked then 0 else (BOARD_SIZE - 1 - r) * 10))
   })"

definition black_pawn_term :: "char list list \<Rightarrow> square \<Rightarrow> int option" where
  "black_pawn_term b sq = (case sq of (r, c) \<Rightarrow> do {
     conn \<leftarrow> connected_bonus b r c (CHR ''p'');
     blocked \<leftarrow> any_opt (pawn_ahead b c (CHR ''P'')) [r + 1..BOARD_SIZE - 1];
     Some (conn + (if blocked then 0 else r * 10))
   })"

definition sum_opt :: "('a \<Rightarrow> int option) \<Rightarrow> 'a list \<Rightarrow> int option" where
  "sum_opt f xs = fold_opt (\<lambda>x acc. do { v \<leftarrow> f x; Some (acc + v) }) xs 0"

definition undeveloped :: "char list list \<Rightarrow> int \<Rightarrow> char list \<Rightarrow> int option" where
  "undeveloped b row pieces =
     sum_opt (\<lambda>c. do { piece \<leftarrow> cell b row c;
                       Some (if piece \<in> set pieces \<and> piece \<noteq> EMPTY_SQUARE then 1 else 0) })
       board_range"

text \<open>
  Pressure on the squares around a king, counted in half points: the source adds 1 for a
  knight and 0.5 for a bishop, rook or queen, and multiplies the sum by
  \<open>ATTACK_KING_ZONE_BONUS\<close>.
\<close>

definition attacker_halves :: "char \<Rightarrow> int \<Rightarrow> int \<Rightarrow> int \<Rightarrow> int \<Rightarrow> int" where
  "attacker_halves piece_type r c check_r check_c =
     (if piece_type = CHR ''N''
      then (if (check_r - r, check_c - c) \<in> set KNIGHT_MOVES then 2 else 0)
      else if piece_type \<in> set [CHR ''B'', CHR ''Q'']
      then (if abs (check_r - r) = abs (check_c - c) \<and> check_r \<noteq> r then 1 else 0)
      else if piece_type \<in> set [CHR ''R'', CHR ''Q'']
      then (if (check_r = r \<or> check_c = c) \<and> \<not> (check_r = r \<and> check_c = c) then 1 else 0)
      else 0)"

definition zone_deltas :: "(int \<times> int) list" where
  "zone_deltas = [(- 1, - 1), (- 1, 0), (- 1, 1), (0, - 1), (0, 1), (1, - 1), (1, 0), (1, 1)]"

definition zone_halves :: "char list list \<Rightarrow> char \<Rightarrow> int \<Rightarrow> int \<Rightarrow> int option" where
  "zone_halves b attacker kr kc =
     sum_opt (\<lambda>(dr, dc).
       if is_on_board (kr + dr) (kc + dc) then
         sum_opt (\<lambda>(r, c). do {
           piece \<leftarrow> cell b r c;
           Some (if piece \<noteq> EMPTY_SQUARE \<and> get_piece_color piece = Some attacker
                 then attacker_halves (upper piece) r c (kr + dr) (kc + dc) else 0)
         }) all_squares
       else Some 0) zone_deltas"

definition position_score :: "gamestate \<Rightarrow> score option" where
  "position_score gs =
     (case (king_coords gs (CHR ''w''), king_coords gs (CHR ''b'')) of
        ((wkr, wkc), (bkr, bkc)) \<Rightarrow> do {
     (s1, board_total, white_pawns, black_pawns) \<leftarrow> board_terms gs;
     hs \<leftarrow> hands gs;
     let wh = dict_get_or hs (CHR ''w'') [];
     let bh = dict_get_or hs (CHR ''b'') [];
     let s2 = s1 + hand_material wh - hand_material bh
                 + hand_count wh * DROP_THREAT_BONUS - hand_count bh * DROP_THREAT_BONUS;
     let total_material = board_total + hand_board_value wh + hand_board_value bh;
     let opening = \<not> (total_material < 2 * piece_value (CHR ''R'') + 2 * piece_value (CHR ''K''));
     wp \<leftarrow> sum_opt (white_pawn_term (board gs)) white_pawns;
     bp \<leftarrow> sum_opt (black_pawn_term (board gs)) black_pawns;
     let s3 = s2 + wp - bp;
     let s4 = (if opening
               then s3 - (if (wkr, wkc) \<in> set CENTER_SQUARES then 20 else 0)
                       + (if (bkr, bkc) \<in> set CENTER_SQUARES then 20 else 0)
               else s3 + (if (wkr, wkc) \<in> set CENTER_SQUARES then 10 else 0)
                       - (if (bkr, bkc) \<in> set CENTER_SQUARES then 10 else 0));
     s5 \<leftarrow> (if opening then do {
               wu \<leftarrow> undeveloped (board gs) 5 [CHR ''N'', CHR ''B'', CHR ''R''];
               bu \<leftarrow> undeveloped (board gs) 0 [CHR ''n'', CHR ''b'', CHR ''r''];
               Some (s4 - wu * 15 + bu * 15)
             } else Some s4);
     s6 \<leftarrow> (if wkr \<noteq> - 1 \<and> bkr \<noteq> - 1 then do {
               wa \<leftarrow> zone_halves (board gs) (CHR ''w'') bkr bkc;
               ba \<leftarrow> zone_halves (board gs) (CHR ''b'') wkr wkc;
               Some (s5 + wa * (ATTACK_KING_ZONE_BONUS div 2) - ba * (ATTACK_KING_ZONE_BONUS div 2))
             } else Some s5);
     Some (Fin (s6 + (if current_turn gs = CHR ''w'' then 10 else - 10)))
   })"

definition evaluate_position :: "gamestate \<Rightarrow> score option" where
  "evaluate_position gs =
     (if checkmate gs then Some (if current_turn gs = CHR ''w'' then NegInf else PosInf)
      else if stalemate gs then stalemate_score gs
      else position_score gs)"


section \<open>Move ordering: \<open>get_noisy_moves\<close>, \<open>mvv_lva_score\<close> (ai.py)\<close>

text \<open>
  Captures and promotions among the legal moves. A move whose target square cannot be
  read is skipped: the source catches the exception inside the loop.
\<close>

definition is_noisy :: "char list list \<Rightarrow> move \<Rightarrow> bool" where
  "is_noisy b move =
     (case move of
        Drop piece_code sq \<Rightarrow> False
      | Normal src (end_r, end_c) promotion \<Rightarrow>
          (case cell b end_r end_c of
             None \<Rightarrow> False
           | Some target \<Rightarrow> target \<noteq> EMPTY_SQUARE \<or> promotion \<noteq> None))"

definition get_noisy_moves :: "gamestate \<Rightarrow> (move list \<times> gamestate) option" where
  "get_noisy_moves gs = do {
     (moves, gs1) \<leftarrow> get_all_legal_moves gs;
     Some (filter (is_noisy (board gs1)) moves, gs1)
   }"

text \<open>
  \<open>mvv_lva_score(gamestate, move)\<close> on any Python value \<open>move\<close>. The history table is keyed
  by \<open>repr(move)\<close>; the model keys it by the value itself, which \<open>repr\<close> determines.
\<close>

definition mvv_lva_score :: "(pyval \<rightharpoonup> int) \<Rightarrow> gamestate \<Rightarrow> pyval \<Rightarrow> int option" where
  "mvv_lva_score history gs mv =
     (if is_tuple mv \<and> truthy mv \<and> py_item mv 0 \<noteq> Some (PStr ''drop'') then do {
        (src, dst, promotion) \<leftarrow> unpack3 mv;
        (sr, sc) \<leftarrow> unpack2 src;
        (er, ec) \<leftarrow> unpack2 dst;
        start_r \<leftarrow> as_int sr;
        start_c \<leftarrow> as_int sc;
        aggressor_piece \<leftarrow> cell (board gs) start_r start_c;
        end_r \<leftarrow> as_int er;
        end_c \<leftarrow> as_int ec;
        victim_piece \<leftarrow> cell (board gs) end_r end_c;
        if aggressor_piece = EMPTY_SQUARE then Some 0
        else do {
          let aggressor_value = piece_value (upper aggressor_piece);
          let piece_color = (if isupper aggressor_piece then CHR ''w'' else CHR ''b'');
          Some ((if victim_piece \<noteq> EMPTY_SQUARE
                 then piece_value (upper victim_piece) * 10 - aggressor_value else 0)
              + (if truthy promotion then 900 else 0)
              + (case king_pos gs (get_opposite_color piece_color) of
                   None \<Rightarrow> 0
                 | Some (ek_r, ek_c) \<Rightarrow>
                     if chebyshev end_r end_c ek_r ek_c \<le> 2 then 500 else 0)
              + (if (end_r, end_c) \<in> set CENTER_SQUARES then 30 else 0)
              + (if piece_color = CHR ''w'' \<and> start_r = 5 \<and> end_r < 5 then 20
                 else if piece_color = CHR ''b'' \<and> start_r = 0 \<and> end_r > 0 then 20 else 0)
              + (case history mv of None \<Rightarrow> 0 | Some bonus \<Rightarrow> bonus))
        }
      }
      else if is_tuple mv \<and> truthy mv \<and> py_item mv 0 = Some (PStr ''drop'') then do {
        piece_code \<leftarrow> py_item mv 1;
        (case piece_code of
           PStr [c0, c1] \<Rightarrow> do {
             pos \<leftarrow> py_item mv 2;
             (drop_r, drop_c) \<leftarrow> unpack2 pos;
             near \<leftarrow> (case king_pos gs (get_opposite_color c0) of
                        None \<Rightarrow> Some 0
                      | Some (ek_r, ek_c) \<Rightarrow> do {
                          r \<leftarrow> as_int drop_r;
                          c \<leftarrow> as_int drop_c;
                          Some (if chebyshev r c ek_r ek_c \<le> 2 then 100 else 0)
                        });
             Some (hand_piece_value (upper c1) div 10
                 + (if (drop_r, drop_c) \<in> set (map (\<lambda>(a, b). (PInt a, PInt b)) CENTER_SQUARES)
                    then 50 else 0)
                 + near
                 + (case history mv of None \<Rightarrow> 0 | Some bonus \<Rightarrow> bonus))
           }
         | _ \<Rightarrow> Some 0)
      }
      else Some 0)"

text \<open>
  \<open>moves.sort(key=..., reverse=True)\<close>: the keys are computed first (any of them may
  raise), then the list is sorted by decreasing key, equal keys keeping their order.
\<close>

definition sort_desc :: "('a \<Rightarrow> int option) \<Rightarrow> 'a list \<Rightarrow> 'a list option" where
  "sort_desc key xs = do {
     ks \<leftarrow> those (map key xs);
     Some (map snd (sort_key (\<lambda>p. - fst p) (zip ks xs)))
   }"

section \<open>Quiescence search and the alpha-beta core (ai.py)\<close>

text \<open>
  The child of a node: the move is made on a deep copy; a pending promotion is completed
  with the piece the source chooses. The inner \<open>None\<close> is \<open>continue\<close>.
\<close>

definition best_prom_piece :: "char \<Rightarrow> char \<Rightarrow> char list \<Rightarrow> char" where
  "best_prom_piece queen rook pieces =
     (if queen \<notin> set pieces \<and> rook \<in> set pieces then rook else queen)"

definition simulate :: "gamestate \<Rightarrow> move \<Rightarrow> char \<Rightarrow> gamestate option option" where
  "simulate gs move prom = do {
     (move_made, next_state) \<leftarrow> make_move gs move;
     if \<not> move_made then Some None
     else if needs_promotion_choice next_state then do {
       (done, promoted) \<leftarrow> complete_promotion next_state prom;
       Some (if done then Some promoted else None)
     }
     else Some (Some next_state)
   }"

definition white_prom :: char where
  "white_prom = best_prom_piece (CHR ''Q'') (CHR ''R'') PROMOTION_PIECES_WHITE_STR"

definition black_prom :: char where
  "black_prom = best_prom_piece (CHR ''q'') (CHR ''r'') PROMOTION_PIECES_BLACK_STR"

text \<open>The two loops of \<open>quiescence_search\<close>; \<open>rec\<close> is the search of a child.\<close>

fun q_loop_max ::
  "(gamestate \<Rightarrow> score \<Rightarrow> score \<Rightarrow> score option) \<Rightarrow> gamestate \<Rightarrow> move list
     \<Rightarrow> score \<Rightarrow> score \<Rightarrow> score option" where
  "q_loop_max rec gs [] alpha beta = Some alpha"
| "q_loop_max rec gs (move # moves) alpha beta = do {
     child \<leftarrow> simulate gs move white_prom;
     (case child of
        None \<Rightarrow> q_loop_max rec gs moves alpha beta
      | Some next_state \<Rightarrow> do {
          score \<leftarrow> rec next_state alpha beta;
          if max alpha score \<ge> beta then Some beta
          else q_loop_max rec gs moves (max alpha score) beta
        })
   }"

fun q_loop_min ::
  "(gamestate \<Rightarrow> score \<Rightarrow> score \<Rightarrow> score option) \<Rightarrow> gamestate \<Rightarrow> move list
     \<Rightarrow> score \<Rightarrow> score \<Rightarrow> score option" where
  "q_loop_min rec gs [] alpha beta = Some beta"
| "q_loop_min rec gs (move # moves) alpha beta = do {
     child \<leftarrow> simulate gs move black_prom;
     (case child of
        None \<Rightarrow> q_loop_min rec gs moves alpha beta
      | Some next_state \<Rightarrow> do {
          score \<leftarrow> rec next_state alpha beta;
          if alpha \<ge> min beta score then Some alpha
          else q_loop_min rec gs moves alpha (min beta score)
        })
   }"

text \<open>
  The part of \<open>quiescence_search\<close> after the test \<open>depth == 0\<close>: the stand-pat bounds, the
  noisy moves in order, the loop. The state that is returned is the caller's object
  after the call (its cached move list may have been filled).
\<close>

definition q_expand ::
  "(gamestate \<Rightarrow> score \<Rightarrow> score \<Rightarrow> score option) \<Rightarrow> (pyval \<rightharpoonup> int) \<Rightarrow> gamestate
     \<Rightarrow> score \<Rightarrow> score \<Rightarrow> score \<Rightarrow> (score \<times> gamestate) option" where
  "q_expand rec history gs stand_pat_score alpha beta =
     (if current_turn gs = CHR ''w'' then
        if stand_pat_score \<ge> beta then Some (beta, gs)
        else do {
          (noisy_moves, gs1) \<leftarrow> get_noisy_moves gs;
          ordered \<leftarrow> sort_desc (\<lambda>m. mvv_lva_score history gs1 (py_of_move m)) noisy_moves;
          v \<leftarrow> q_loop_max rec gs1 ordered (max alpha stand_pat_score) beta;
          Some (v, gs1)
        }
      else
        if stand_pat_score \<le> alpha then Some (alpha, gs)
        else do {
          (noisy_moves, gs1) \<leftarrow> get_noisy_moves gs;
          ordered \<leftarrow> sort_desc (\<lambda>m. mvv_lva_score history gs1 (py_of_move m)) noisy_moves;
          v \<leftarrow> q_loop_min rec gs1 ordered alpha (min beta stand_pat_score);
          Some (v, gs1)
        })"

text \<open>
  \<open>quiescence_search(gamestate, alpha, beta, depth)\<close>, by recursion on the depth budget,
  which the source counts down to 0 from \<open>MAX_QUIESCENCE_DEPTH\<close>.
\<close>

primrec quiescence_search ::
  "(pyval \<rightharpoonup> int) \<Rightarrow> gamestate \<Rightarrow> score \<Rightarrow> score \<Rightarrow> nat \<Rightarrow> (score \<times> gamestate) option" where
  "quiescence_search history gs alpha beta 0 = do {
     stand_pat_score \<leftarrow> evaluate_position gs;
     Some (stand_pat_score, gs)
   }"
| "quiescence_search history gs alpha beta (Suc depth) =
     (if checkmate gs \<or> stalemate gs then do {
        v \<leftarrow> evaluate_position gs;
        Some (v, gs)
      }
      else do {
        stand_pat_score \<leftarrow> evaluate_position gs;
        q_expand (\<lambda>next_state a b.
                    map_option fst (quiescence_search history next_state a b depth))
          history gs stand_pat_score alpha beta
      })"

subsection \<open>The tables of the alpha-beta core\<close>

datatype flag = EXACT | LOWERBOUND | UPPERBOUND

record tt_entry =
  e_depth :: nat
  e_score :: score
  e_flag :: flag
  e_best_move :: "move option"

record tables =
  tt :: "string \<rightharpoonup> tt_entry"
  killer_moves :: "nat \<rightharpoonup> move list"
  history_scores :: "pyval \<rightharpoonup> int"

text \<open>
  The probe of the transposition table (the block under "TT-based alpha/beta
  tightening"): an immediate answer, or the window to search with.
\<close>

datatype probe = Hit score "move option" | Window score score

definition tt_probe :: "tt_entry option \<Rightarrow> nat \<Rightarrow> score \<Rightarrow> score \<Rightarrow> probe" where
  "tt_probe tt_entry depth alpha beta =
     (case tt_entry of
        None \<Rightarrow> Window alpha beta
      | Some e \<Rightarrow>
          if e_depth e \<ge> depth then
            (if e_flag e = EXACT then Hit (e_score e) (e_best_move e)
             else
               (let alpha' = (if e_flag e = LOWERBOUND then max alpha (e_score e) else alpha);
                    beta' = (if e_flag e = UPPERBOUND then min beta (e_score e) else beta)
                in if alpha' \<ge> beta' then Hit (e_score e) (e_best_move e)
                   else Window alpha' beta'))
          else Window alpha beta)"

text \<open>\<open>killers.index(move)\<close> for a move that is in the list.\<close>

fun index_of :: "'a \<Rightarrow> 'a list \<Rightarrow> int" where
  "index_of x [] = 0"
| "index_of x (y # ys) = (if x = y then 0 else 1 + index_of x ys)"

definition move_order_score ::
  "(pyval \<rightharpoonup> int) \<Rightarrow> gamestate \<Rightarrow> move option \<Rightarrow> move list \<Rightarrow> move \<Rightarrow> int option" where
  "move_order_score history gs tt_best killers move =
     (if tt_best \<noteq> None \<and> Some move = tt_best then Some 1000000
      else if move \<in> set killers then Some (50000 + (100 - index_of move killers))
      else mvv_lva_score history gs (py_of_move move))"

text \<open>The update of the history and killer tables for the move of a cutoff.\<close>

definition record_cutoff :: "nat \<Rightarrow> move \<Rightarrow> tables \<Rightarrow> tables" where
  "record_cutoff depth move tabs =
     (let key = py_of_move move;
          old = (case history_scores tabs key of None \<Rightarrow> 0 | Some v \<Rightarrow> v);
          killers = (case killer_moves tabs depth of None \<Rightarrow> [] | Some ks \<Rightarrow> ks);
          inserted = (if move \<notin> set killers then move # killers else killers);
          capped = (if move \<notin> set killers \<and> length inserted > 2 then butlast inserted
                    else inserted)
      in tabs\<lparr>history_scores := (history_scores tabs)(key \<mapsto> old + int depth * int depth),
              killer_moves := (killer_moves tabs)(depth \<mapsto> capped)\<rparr>)"

text \<open>
  One pass of the loop body after the child has been searched, for the maximizing and
  for the minimizing player: the cutoff with the tables it leaves, or the values the
  loop goes on with.
\<close>

datatype visit = Cutoff score "move option" tables | Next score score score "move option"

definition visit_max ::
  "nat \<Rightarrow> move \<Rightarrow> score \<Rightarrow> score \<Rightarrow> score \<Rightarrow> score \<Rightarrow> move option \<Rightarrow> tables \<Rightarrow> visit" where
  "visit_max depth move eval_score alpha beta max_eval best tabs =
     (let max_eval' = (if eval_score > max_eval then eval_score else max_eval);
          best' = (if eval_score > max_eval then Some move else best);
          alpha' = max alpha eval_score
      in if alpha' \<ge> beta
         then Cutoff max_eval' best'
                (case best' of None \<Rightarrow> tabs | Some bm \<Rightarrow> record_cutoff depth bm tabs)
         else Next alpha' beta max_eval' best')"

definition visit_min ::
  "nat \<Rightarrow> move \<Rightarrow> score \<Rightarrow> score \<Rightarrow> score \<Rightarrow> score \<Rightarrow> move option \<Rightarrow> tables \<Rightarrow> visit" where
  "visit_min depth move eval_score alpha beta min_eval best tabs =
     (let min_eval' = (if eval_score < min_eval then eval_score else min_eval);
          best' = (if eval_score < min_eval then Some move else best);
          beta' = min beta eval_score
      in if alpha \<ge> beta'
         then Cutoff min_eval' best'
                (case best' of None \<Rightarrow> tabs | Some bm \<Rightarrow> record_cutoff depth bm tabs)
         else Next alpha beta' min_eval' best')"

type_synonym search_result = "score \<times> move option \<times> tables \<times> gamestate"

type_synonym searcher =
  "gamestate \<Rightarrow> score \<Rightarrow> score \<Rightarrow> bool \<Rightarrow> tables \<Rightarrow> search_result option"

fun max_loop ::
  "searcher \<Rightarrow> gamestate \<Rightarrow> nat \<Rightarrow> move list \<Rightarrow> score \<Rightarrow> score \<Rightarrow> score \<Rightarrow> move option
     \<Rightarrow> tables \<Rightarrow> (score \<times> move option \<times> tables) option" where
  "max_loop rec gs depth [] alpha beta max_eval best tabs = Some (max_eval, best, tabs)"
| "max_loop rec gs depth (move # moves) alpha beta max_eval best tabs = do {
     child \<leftarrow> simulate gs move white_prom;
     (case child of
        None \<Rightarrow> max_loop rec gs depth moves alpha beta max_eval best tabs
      | Some next_state \<Rightarrow> do {
          (eval_score, _, tabs1, _) \<leftarrow> rec next_state alpha beta False tabs;
          (case visit_max depth move eval_score alpha beta max_eval best tabs1 of
             Cutoff final_score best_move tabs2 \<Rightarrow> Some (final_score, best_move, tabs2)
           | Next alpha' beta' max_eval' best' \<Rightarrow>
               max_loop rec gs depth moves alpha' beta' max_eval' best' tabs1)
        })
   }"

fun min_loop ::
  "searcher \<Rightarrow> gamestate \<Rightarrow> nat \<Rightarrow> move list \<Rightarrow> score \<Rightarrow> score \<Rightarrow> score \<Rightarrow> move option
     \<Rightarrow> tables \<Rightarrow> (score \<times> move option \<times> tables) option" where
  "min_loop rec gs depth [] alpha beta min_eval best tabs = Some (min_eval, best, tabs)"
| "min_loop rec gs depth (move # moves) alpha beta min_eval best tabs = do {
     child \<leftarrow> simulate gs move black_prom;
     (case child of
        None \<Rightarrow> min_loop rec gs depth moves alpha beta min_eval best tabs
      | Some next_state \<Rightarrow> do {
          (eval_score, _, tabs1, _) \<leftarrow> rec next_state alpha beta True tabs;
          (case visit_min depth move eval_score alpha beta min_eval best tabs1 of
             Cutoff final_score best_move tabs2 \<Rightarrow> Some (final_score, best_move, tabs2)
           | Next alpha' beta' min_eval' best' \<Rightarrow>
               min_loop rec gs depth moves alpha' beta' min_eval' best' tabs1)
        })
   }"

text \<open>
  The part of \<open>minimax_alpha_beta\<close> from the move ordering to the end: the legal moves
  are sorted in place (the list is the one cached in the state), searched, and the
  result is stored in the transposition table under \<open>pos_hash\<close>.
\<close>

definition search_moves ::
  "searcher \<Rightarrow> gamestate \<Rightarrow> nat \<Rightarrow> move list \<Rightarrow> string \<Rightarrow> score \<Rightarrow> score \<Rightarrow> bool
     \<Rightarrow> tables \<Rightarrow> search_result option" where
  "search_moves rec gs depth legal_moves pos_hash alpha beta maximizing_player tabs = do {
     ordered \<leftarrow> sort_desc
        (move_order_score (history_scores tabs) gs
           (case tt tabs pos_hash of None \<Rightarrow> None | Some e \<Rightarrow> e_best_move e)
           (case killer_moves tabs depth of None \<Rightarrow> [] | Some ks \<Rightarrow> ks))
        legal_moves;
     let gs1 = gs\<lparr>all_legal_moves_cache := Some ordered\<rparr>;
     (final_score, best_move_for_depth, tabs1) \<leftarrow>
        (if maximizing_player
         then max_loop rec gs1 depth ordered alpha beta NegInf None tabs
         else min_loop rec gs1 depth ordered alpha beta PosInf None tabs);
     let flag = (if final_score \<le> alpha then UPPERBOUND
                 else if final_score \<ge> beta then LOWERBOUND else EXACT);
     Some (final_score, best_move_for_depth,
           tabs1\<lparr>tt := (tt tabs1)(pos_hash \<mapsto>
              \<lparr>e_depth = depth, e_score = final_score, e_flag = flag,
               e_best_move = best_move_for_depth\<rparr>)\<rparr>,
           gs1)
   }"

text \<open>
  \<open>minimax_alpha_beta(gamestate, depth, alpha, beta, maximizing_player)\<close> with the global
  tables passed in and returned; \<open>sha\<close> is the digest function of the hasher.
\<close>

primrec minimax_alpha_beta ::
  "(state_tuple \<Rightarrow> 256 word) \<Rightarrow> gamestate \<Rightarrow> nat \<Rightarrow> score \<Rightarrow> score \<Rightarrow> bool \<Rightarrow> tables
     \<Rightarrow> search_result option" where
  "minimax_alpha_beta sha gs 0 alpha beta maximizing_player tabs = do {
     (q_score, gs1) \<leftarrow> quiescence_search (history_scores tabs) gs alpha beta MAX_QUIESCENCE_DEPTH;
     Some (q_score, None, tabs, gs1)
   }"
| "minimax_alpha_beta sha gs (Suc d) alpha beta maximizing_player tabs =
     (if checkmate gs \<or> stalemate gs then do {
        (q_score, gs1) \<leftarrow>
          quiescence_search (history_scores tabs) gs alpha beta MAX_QUIESCENCE_DEPTH;
        Some (q_score, None, tabs, gs1)
      }
      else do {
        (legal_moves, gs1) \<leftarrow> get_all_legal_moves gs;
        if legal_moves = [] then do {
          v \<leftarrow> evaluate_position gs1;
          Some (v, None, tabs, gs1)
        }
        else
          (case tt_probe (tt tabs (get_position_hash sha gs)) (Suc d) alpha beta of
             Hit score best_move \<Rightarrow> Some (score, best_move, tabs, gs1)
           | Window alpha' beta' \<Rightarrow>
               search_moves (\<lambda>next_state a b mx t. minimax_alpha_beta sha next_state d a b mx t)
                 gs1 (Suc d) legal_moves (get_position_hash sha gs)
                 alpha' beta' maximizing_player tabs)
      })"


section \<open>The parallel root dispatcher (ai.py)\<close>

text \<open>
  What the dispatcher and the driver take from their environment:
  \<^item> \<open>sha256\<close>: the digest function of the hasher;
  \<^item> \<open>fast_copy_for_simulation\<close>: the method of that name, which the workers call on a
    state. No class of the sources defines it, so on this repository the call raises
    (\<open>\<lambda>gs. None\<close>); a rules engine that provides it answers a copy (\<open>Some\<close>);
  \<^item> \<open>pool_fault d\<close>: creating or running the process pool raises during the dispatch
    at depth \<open>d\<close>;
  \<^item> \<open>driver_fault d\<close>: an unexpected exception is raised in the driver's loop at the
    start of iteration \<open>d\<close>;
  \<^item> \<open>random_index\<close>: the draw of \<open>random.choice\<close>.
\<close>

record env =
  sha256 :: "state_tuple \<Rightarrow> 256 word"
  fast_copy_for_simulation :: "gamestate \<Rightarrow> gamestate option"
  pool_fault :: "nat \<Rightarrow> bool"
  driver_fault :: "int \<Rightarrow> bool"
  random_index :: nat

definition random_choice :: "env \<Rightarrow> 'a list \<Rightarrow> 'a" where
  "random_choice e xs = xs ! (random_index e mod length xs)"

definition mate_for :: "char \<Rightarrow> score" where
  "mate_for turn = (if turn = CHR ''w'' then Fin (- CHECKMATE_SCORE) else Fin CHECKMATE_SCORE)"

text \<open>
  The test both worker-side searches start with: without legal moves the answer is the
  mate score against the side to move, or the stalemate score.
\<close>

definition no_moves_score :: "gamestate \<Rightarrow> score option" where
  "no_moves_score gs = do {
     (chk, _) \<leftarrow> is_in_check gs (current_turn gs);
     Some (if chk then mate_for (current_turn gs) else Fin STALEMATE_SCORE)
   }"

fun uq_loop_max ::
  "(gamestate \<Rightarrow> score \<Rightarrow> score \<Rightarrow> score option) \<Rightarrow> env \<Rightarrow> gamestate \<Rightarrow> move list
     \<Rightarrow> score \<Rightarrow> score \<Rightarrow> score option" where
  "uq_loop_max rec e gs [] alpha beta = Some alpha"
| "uq_loop_max rec e gs (move # moves) alpha beta = do {
     copied \<leftarrow> fast_copy_for_simulation e gs;
     (move_made, next_state) \<leftarrow> make_move copied move;
     if \<not> move_made then uq_loop_max rec e gs moves alpha beta
     else do {
       score \<leftarrow> rec next_state alpha beta;
       if score \<ge> Fin CHECKMATE_SCORE then Some (Fin CHECKMATE_SCORE)
       else if max alpha score \<ge> beta then Some (max alpha score)
       else uq_loop_max rec e gs moves (max alpha score) beta
     }
   }"

fun uq_loop_min ::
  "(gamestate \<Rightarrow> score \<Rightarrow> score \<Rightarrow> score option) \<Rightarrow> env \<Rightarrow> gamestate \<Rightarrow> move list
     \<Rightarrow> score \<Rightarrow> score \<Rightarrow> score option" where
  "uq_loop_min rec e gs [] alpha beta = Some beta"
| "uq_loop_min rec e gs (move # moves) alpha beta = do {
     copied \<leftarrow> fast_copy_for_simulation e gs;
     (move_made, next_state) \<leftarrow> make_move copied move;
     if \<not> move_made then uq_loop_min rec e gs moves alpha beta
     else do {
       score \<leftarrow> rec next_state alpha beta;
       if score \<le> Fin (- CHECKMATE_SCORE) then Some (Fin (- CHECKMATE_SCORE))
       else if min beta score \<le> alpha then Some (min beta score)
       else uq_loop_min rec e gs moves alpha (min beta score)
     }
   }"

text \<open>The part of \<open>_quiescence_search\<close> after the test \<open>depth == 0\<close>.\<close>

definition uq_expand ::
  "(gamestate \<Rightarrow> score \<Rightarrow> score \<Rightarrow> bool \<Rightarrow> score option) \<Rightarrow> env \<Rightarrow> gamestate
     \<Rightarrow> score \<Rightarrow> score \<Rightarrow> score \<Rightarrow> bool \<Rightarrow> score option" where
  "uq_expand rec e gs stand_pat_score alpha beta maximizing_player =
     (if maximizing_player then
        if stand_pat_score \<ge> beta then Some beta
        else do {
          (noisy_moves, gs1) \<leftarrow> get_noisy_moves gs;
          if noisy_moves = [] then Some stand_pat_score
          else uq_loop_max (\<lambda>s a b. rec s a b False) e gs1 noisy_moves
                 (max alpha stand_pat_score) beta
        }
      else
        if stand_pat_score \<le> alpha then Some alpha
        else do {
          (noisy_moves, gs1) \<leftarrow> get_noisy_moves gs;
          if noisy_moves = [] then Some stand_pat_score
          else uq_loop_min (\<lambda>s a b. rec s a b True) e gs1 noisy_moves
                 alpha (min beta stand_pat_score)
        })"

text \<open>
  \<open>_quiescence_search(gamestate, alpha, beta, maximizing_player, depth)\<close>; the names of
  the worker-side functions carry \<open>u_\<close> for the leading underscore of the source.
\<close>

primrec u_quiescence_search ::
  "env \<Rightarrow> gamestate \<Rightarrow> score \<Rightarrow> score \<Rightarrow> bool \<Rightarrow> nat \<Rightarrow> score option" where
  "u_quiescence_search e gs alpha beta maximizing_player 0 = do {
     stand_pat_score \<leftarrow> evaluate_position gs;
     (legal_moves_q, gs1) \<leftarrow> get_all_legal_moves gs;
     if legal_moves_q = [] then no_moves_score gs1 else Some stand_pat_score
   }"
| "u_quiescence_search e gs alpha beta maximizing_player (Suc depth) = do {
     stand_pat_score \<leftarrow> evaluate_position gs;
     (legal_moves_q, gs1) \<leftarrow> get_all_legal_moves gs;
     if legal_moves_q = [] then no_moves_score gs1
     else uq_expand (\<lambda>s a b mx. u_quiescence_search e s a b mx depth)
            e gs1 stand_pat_score alpha beta maximizing_player
   }"

fun ur_loop_max ::
  "(gamestate \<Rightarrow> score \<Rightarrow> score \<Rightarrow> score option) \<Rightarrow> env \<Rightarrow> gamestate \<Rightarrow> move list
     \<Rightarrow> score \<Rightarrow> score \<Rightarrow> score \<Rightarrow> score option" where
  "ur_loop_max rec e gs [] alpha beta max_eval = Some max_eval"
| "ur_loop_max rec e gs (move # moves) alpha beta max_eval = do {
     copied \<leftarrow> fast_copy_for_simulation e gs;
     (move_made, next_state) \<leftarrow> make_move copied move;
     if \<not> move_made then ur_loop_max rec e gs moves alpha beta max_eval
     else do {
       eval_score \<leftarrow> rec next_state alpha beta;
       if eval_score \<ge> Fin CHECKMATE_SCORE then Some (Fin CHECKMATE_SCORE)
       else if beta \<le> max alpha eval_score then Some (max max_eval eval_score)
       else ur_loop_max rec e gs moves (max alpha eval_score) beta (max max_eval eval_score)
     }
   }"

fun ur_loop_min ::
  "(gamestate \<Rightarrow> score \<Rightarrow> score \<Rightarrow> score option) \<Rightarrow> env \<Rightarrow> gamestate \<Rightarrow> move list
     \<Rightarrow> score \<Rightarrow> score \<Rightarrow> score \<Rightarrow> score option" where
  "ur_loop_min rec e gs [] alpha beta min_eval = Some min_eval"
| "ur_loop_min rec e gs (move # moves) alpha beta min_eval = do {
     copied \<leftarrow> fast_copy_for_simulation e gs;
     (move_made, next_state) \<leftarrow> make_move copied move;
     if \<not> move_made then ur_loop_min rec e gs moves alpha beta min_eval
     else do {
       eval_score \<leftarrow> rec next_state alpha beta;
       if eval_score \<le> Fin (- CHECKMATE_SCORE) then Some (Fin (- CHECKMATE_SCORE))
       else if min beta eval_score \<le> alpha then Some (min min_eval eval_score)
       else ur_loop_min rec e gs moves alpha (min beta eval_score) (min min_eval eval_score)
     }
   }"

text \<open>\<open>_minimax_recursive(gamestate, depth, alpha, beta, maximizing_player)\<close>.\<close>

primrec u_minimax_recursive ::
  "env \<Rightarrow> gamestate \<Rightarrow> nat \<Rightarrow> score \<Rightarrow> score \<Rightarrow> bool \<Rightarrow> score option" where
  "u_minimax_recursive e gs 0 alpha beta maximizing_player = do {
     (legal_moves, gs1) \<leftarrow> get_all_legal_moves gs;
     if legal_moves = [] then no_moves_score gs1
     else u_quiescence_search e gs1 alpha beta maximizing_player MAX_QUIESCENCE_DEPTH
   }"
| "u_minimax_recursive e gs (Suc d) alpha beta maximizing_player = do {
     (legal_moves, gs1) \<leftarrow> get_all_legal_moves gs;
     if legal_moves = [] then no_moves_score gs1
     else if maximizing_player
       then ur_loop_max (\<lambda>s a b. u_minimax_recursive e s d a b False) e gs1 legal_moves
              alpha beta NegInf
       else ur_loop_min (\<lambda>s a b. u_minimax_recursive e s d a b True) e gs1 legal_moves
              alpha beta PosInf
   }"

text \<open>
  \<open>_minimax_worker\<close>: the move is made on the worker's own copy and the position after
  it is searched to \<open>depth - 1\<close>; whatever is raised is caught and replaced by the worst
  score for the side that moves. The dispatcher is only called with \<open>depth \<ge> 1\<close>.
\<close>

definition worst_score :: "bool \<Rightarrow> score" where
  "worst_score maximizing_player =
     (if maximizing_player then Fin (- CHECKMATE_SCORE) else Fin CHECKMATE_SCORE)"

definition u_minimax_worker ::
  "env \<Rightarrow> move \<Rightarrow> gamestate \<Rightarrow> nat \<Rightarrow> score \<Rightarrow> score \<Rightarrow> bool \<Rightarrow> move \<times> score" where
  "u_minimax_worker e move gamestate_copy depth alpha beta maximizing_player =
     (case do {
             (move_made, after) \<leftarrow> make_move gamestate_copy move;
             if \<not> move_made then Some (worst_score maximizing_player)
             else u_minimax_recursive e after (depth - 1) alpha beta (\<not> maximizing_player)
           } of
        Some score \<Rightarrow> (move, score)
      | None \<Rightarrow> (move, worst_score maximizing_player))"

text \<open>The reconciliation of the workers' results: mate priority, then the extremum.\<close>

definition mating_score :: "char \<Rightarrow> score" where
  "mating_score turn =
     (if turn = CHR ''w'' then Fin CHECKMATE_SCORE else Fin (- CHECKMATE_SCORE))"

definition better_max :: "move \<times> score \<Rightarrow> move \<times> score \<Rightarrow> move \<times> score" where
  "better_max r best = (if snd r > snd best then r else best)"

definition better_min :: "move \<times> score \<Rightarrow> move \<times> score \<Rightarrow> move \<times> score" where
  "better_min r best = (if snd r < snd best then r else best)"

definition select_root_move :: "char \<Rightarrow> (move \<times> score) list \<Rightarrow> (move \<times> score) option" where
  "select_root_move turn all_results =
     (case all_results of
        [] \<Rightarrow> None
      | first # _ \<Rightarrow>
          (case find (\<lambda>(move, score). score = mating_score turn) all_results of
             Some (best_mate_move, _) \<Rightarrow> Some (best_mate_move, mating_score turn)
           | None \<Rightarrow>
               if turn = CHR ''w''
               then Some (fold better_max all_results (fst first, NegInf))
               else Some (fold better_min all_results (fst first, PosInf))))"

text \<open>The branch of \<open>minimax\<close> for an empty list of results.\<close>

definition no_results :: "env \<Rightarrow> gamestate \<Rightarrow> (move option \<times> score \<times> gamestate) option" where
  "no_results e gs =
     (if checkmate gs then Some (None, mate_for (current_turn gs), gs)
      else if stalemate gs then Some (None, Fin STALEMATE_SCORE, gs)
      else do {
        (legal_moves_fallback, gs1) \<leftarrow> get_all_legal_moves gs;
        if legal_moves_fallback = [] then do {
          (chk, gs2) \<leftarrow> is_in_check gs1 (current_turn gs1);
          Some (None, if \<not> chk then Fin STALEMATE_SCORE else mate_for (current_turn gs1), gs2)
        }
        else Some (Some (random_choice e legal_moves_fallback), NegInf, gs1)
      })"

text \<open>
  The body of the \<open>try\<close> of \<open>minimax(gamestate, depth, move_cache)\<close>: every worker gets a
  pickled copy of the state and its own result slot, so the pool is a \<open>map\<close>.
\<close>

definition minimax_try ::
  "env \<Rightarrow> gamestate \<Rightarrow> nat \<Rightarrow> (move option \<times> score \<times> gamestate) option" where
  "minimax_try e gs depth = do {
     (legal_moves, gs1) \<leftarrow> get_all_legal_moves gs;
     if legal_moves = [] then Some (None, Fin 0, gs1)
     else if pool_fault e depth then None
     else
       (case select_root_move (current_turn gs1)
               (map (\<lambda>move. u_minimax_worker e move gs1 depth NegInf PosInf
                               (current_turn gs1 = CHR ''w'')) legal_moves) of
          Some (best_move, best_score) \<Rightarrow> Some (Some best_move, best_score, gs1)
        | None \<Rightarrow> no_results e gs1)
   }"

definition minimax :: "env \<Rightarrow> gamestate \<Rightarrow> nat \<Rightarrow> move option \<times> score \<times> gamestate" where
  "minimax e gs depth =
     (case minimax_try e gs depth of
        Some r \<Rightarrow> r
      | None \<Rightarrow>
          (case get_all_legal_moves gs of
             Some (moves, gs1) \<Rightarrow>
               (if moves = [] then None else Some (random_choice e moves), Fin 0, gs1)
           | None \<Rightarrow> (None, Fin 0, gs)))"

section \<open>The iterative deepening driver: \<open>find_best_move\<close> (ai.py)\<close>

text \<open>
  The move cache maps \<open>(position hash, depth)\<close> to the \<open>repr\<close> of a move, which the driver
  reads back with \<open>eval\<close>; the model stores the move.
\<close>

type_synonym move_cache = "string \<times> int \<rightharpoonup> move"

text \<open>\<open>is_move_legal\<close>, the method ai.py adds to \<open>GameState\<close>: on an exception, \<open>False\<close>.\<close>

definition is_move_legal :: "gamestate \<Rightarrow> move \<Rightarrow> bool \<times> gamestate" where
  "is_move_legal gs move =
     (case get_all_legal_moves gs of
        None \<Rightarrow> (False, gs)
      | Some (moves, gs1) \<Rightarrow> (move \<in> set moves, gs1))"

text \<open>
  The loop over \<open>range(1, depth + 1)\<close>. The first component of the result says whether
  the loop was left by an exception; the rest is the state of the driver: best move, best
  score, move cache and the caller's game state.
\<close>

type_synonym driver_state = "move option \<times> score \<times> move_cache \<times> gamestate"

fun id_loop :: "env \<Rightarrow> string \<Rightarrow> int \<Rightarrow> int list \<Rightarrow> driver_state \<Rightarrow> bool \<times> driver_state" where
  "id_loop e pos_hash depth [] st = (False, st)"
| "id_loop e pos_hash depth (current_depth # rest) (best_move, best_score, mc, gs) =
     (if driver_fault e current_depth then (True, (best_move, best_score, mc, gs))
      else
        (case (case mc (pos_hash, current_depth) of
                 Some cached_move \<Rightarrow>
                   if current_depth = depth
                   then (case is_move_legal gs cached_move of
                           (legal, gs1) \<Rightarrow> (if legal then Some cached_move else None, gs1))
                   else (None, gs)
               | None \<Rightarrow> (None, gs)) of
           (Some cached_move, gs1) \<Rightarrow> (False, (Some cached_move, best_score, mc, gs1))
         | (None, gs1) \<Rightarrow>
             (case minimax e gs1 (nat current_depth) of
                (None, iter_best_score, gs2) \<Rightarrow> (False, (best_move, best_score, mc, gs2))
              | (Some iter_best_move, iter_best_score, gs2) \<Rightarrow>
                  if score_abs iter_best_score \<ge> Fin 900000
                  then (False, (Some iter_best_move, iter_best_score,
                                mc((pos_hash, current_depth) \<mapsto> iter_best_move), gs2))
                  else id_loop e pos_hash depth rest
                         (Some iter_best_move, iter_best_score,
                          mc((pos_hash, current_depth) \<mapsto> iter_best_move), gs2))))"

text \<open>
  \<open>find_best_move(gamestate, depth)\<close>: the move (or \<open>None\<close>), the move cache and the
  caller's state after the call. The outer \<open>None\<close> is an exception that leaves the
  function.
\<close>

definition find_best_move ::
  "env \<Rightarrow> gamestate \<Rightarrow> int \<Rightarrow> move_cache \<Rightarrow> (move option \<times> move_cache \<times> gamestate) option" where
  "find_best_move e gs depth mc =
     (if needs_promotion_choice gs then Some (None, mc, gs)
      else
        (case (case mc (get_position_hash (sha256 e) gs, depth) of
                 Some cached_move \<Rightarrow>
                   (case is_move_legal gs cached_move of
                      (legal, gs1) \<Rightarrow> (if legal then Some cached_move else None, gs1))
               | None \<Rightarrow> (None, gs)) of
           (Some cached_move, gs1) \<Rightarrow> Some (Some cached_move, mc, gs1)
         | (None, gs1) \<Rightarrow> do {
             (legal_moves, _) \<leftarrow> get_all_legal_moves gs1;
             (case legal_moves of
                [] \<Rightarrow> do { _ \<leftarrow> evaluate_position gs1; Some (None, mc, gs1) }
              | [only] \<Rightarrow>
                  Some (Some only, mc((get_position_hash (sha256 e) gs, depth) \<mapsto> only), gs1)
              | _ \<Rightarrow>
                  (case id_loop e (get_position_hash (sha256 e) gs) depth [1..depth]
                          (None, Fin 0, mc, gs1) of
                     (raised, found, best_score, mc1, gs2) \<Rightarrow>
                       (case (if raised \<and> found = None
                              then Some (random_choice e legal_moves) else found) of
                          Some best_move \<Rightarrow>
                            Some (Some best_move,
                                  mc1((get_position_hash (sha256 e) gs, depth) \<mapsto> best_move),
                                  gs2)
                        | None \<Rightarrow> Some (None, mc1, gs2))))
           }))"

section \<open>Notions used to state the properties\<close>

text \<open>A board as \<open>GameState\<close> keeps it: six rows of six cells.\<close>

definition wf_board :: "char list list \<Rightarrow> bool" where
  "wf_board b = (length b = 6 \<and> (\<forall>row \<in> set b. length row = 6))"

definition piece_at :: "char list list \<Rightarrow> square \<Rightarrow> char" where
  "piece_at b sq = b ! nat (fst sq) ! nat (snd sq)"




subsection \<open>Example states\<close>

text \<open>A state as \<open>GameState()\<close> creates it, with the given board, turn, hands and kings.\<close>

definition mk_state ::
  "char list list \<Rightarrow> char \<Rightarrow> (char \<times> hand) list option \<Rightarrow> (char \<rightharpoonup> square) \<Rightarrow> gamestate" where
  "mk_state b turn hs kp =
     \<lparr>board = b, current_turn = turn, hands = hs, king_pos = kp,
      checkmate = False, stalemate = False, last_move = None, move_log = [],
      needs_promotion_choice = False, promotion_square = None,
      last_move_for_promotion = None, all_legal_moves_cache = None,
      en_passant_target = PNone,
      can_castle_white_kingside = False, can_castle_white_queenside = False,
      can_castle_black_kingside = False, can_castle_black_queenside = False\<rparr>"

definition empty_hands :: "(char \<times> hand) list" where
  "empty_hands =
     [(CHR ''w'', [(CHR ''P'', 0), (CHR ''N'', 0), (CHR ''B'', 0), (CHR ''R'', 0)]),
      (CHR ''b'', [(CHR ''P'', 0), (CHR ''N'', 0), (CHR ''B'', 0), (CHR ''R'', 0)])]"



text \<open>Two dictionaries with the same items, in whatever order they were inserted.\<close>

definition same_dict :: "('k \<times> 'v) list \<Rightarrow> ('k \<times> 'v) list \<Rightarrow> bool" where
  "same_dict d1 d2 = (distinct (map fst d1) \<and> distinct (map fst d2) \<and> set d1 = set d2)"

definition hex_chars :: "char list" where
  "hex_chars = ''0123456789abcdef''"






text \<open>
  An environment for the examples: some digest function; the repository as it stands
  (no \<open>fast_copy_for_simulation\<close>); no faults.
\<close>

definition toy_digest :: "state_tuple \<Rightarrow> 256 word" where
  "toy_digest t = (case t of (rows, wh, bh, turn, ep, castling) \<Rightarrow>
      of_nat (length (concat rows) + 37 * length wh + 1009 * length bh + 65537 * of_char turn))"

definition repo_env :: env where
  "repo_env = \<lparr>sha256 = toy_digest, fast_copy_for_simulation = (\<lambda>gs. None),
     pool_fault = (\<lambda>d. False), driver_fault = (\<lambda>d. False), random_index = 0\<rparr>"

definition empty_tables :: tables where
  "empty_tables = \<lparr>tt = Map.empty, killer_moves = Map.empty, history_scores = Map.empty\<rparr>"

text \<open>The position of \<open>setup_initial_board\<close> and its fifteen legal moves.\<close>

definition initial_position :: gamestate where
  "initial_position =
     mk_state [''..bnrk'', ''.....p'', ''......'', ''......'', ''P.....'', ''KRNB..'']
       (CHR ''w'') (Some empty_hands) [CHR ''w'' \<mapsto> (5, 0), CHR ''b'' \<mapsto> (0, 5)]"

definition initial_moves :: "move list" where
  "initial_moves =
     [Normal (4, 0) (3, 0) None, Normal (5, 0) (4, 1) None,
      Normal (5, 1) (4, 1) None, Normal (5, 1) (3, 1) None,
      Normal (5, 1) (2, 1) None, Normal (5, 1) (1, 1) None,
      Normal (5, 1) (0, 1) None, Normal (5, 2) (4, 4) None,
      Normal (5, 2) (3, 3) None, Normal (5, 2) (3, 1) None,
      Normal (5, 3) (4, 4) None, Normal (5, 3) (3, 5) None,
      Normal (5, 3) (4, 2) None, Normal (5, 3) (3, 1) None,
      Normal (5, 3) (2, 0) None]"

text \<open>
  Two states with the same position: the hands were filled in a different order, and
  the second state has played moves, has a move log and a cached move list.
\<close>

definition hashed_one :: gamestate where
  "hashed_one =
     mk_state [''..bnrk'', ''......'', ''......'', ''......'', ''......'', ''KRN...'']
       (CHR ''w'')
       (Some [(CHR ''w'', [(CHR ''P'', 1), (CHR ''B'', 2)]), (CHR ''b'', [(CHR ''P'', 1)])])
       [CHR ''w'' \<mapsto> (5, 0), CHR ''b'' \<mapsto> (0, 5)]"

definition hashed_two :: gamestate where
  "hashed_two =
     (mk_state [''..bnrk'', ''......'', ''......'', ''......'', ''......'', ''KRN...'']
        (CHR ''w'')
        (Some [(CHR ''b'', [(CHR ''P'', 1)]), (CHR ''w'', [(CHR ''B'', 2), (CHR ''P'', 1)])])
        [CHR ''b'' \<mapsto> (0, 5), CHR ''w'' \<mapsto> (5, 0)])
     \<lparr>move_log := [Normal (5, 3) (1, 5) None, Normal (0, 5) (1, 5) None],
      last_move := Some (Normal (0, 5) (1, 5) None),
      all_legal_moves_cache := Some []\<rparr>"

text \<open>
  Tables whose transposition table has, for the initial position, an exact entry of
  depth 3.
\<close>

definition stored_entry :: tt_entry where
  "stored_entry = \<lparr>e_depth = 3, e_score = Fin 42, e_flag = EXACT,
                    e_best_move = Some (Normal (4, 0) (3, 0) None)\<rparr>"

definition tables_with_entry :: tables where
  "tables_with_entry =
     empty_tables\<lparr>tt := [get_position_hash toy_digest initial_position \<mapsto> stored_entry]\<rparr>"



text \<open>
  A state whose \<open>hands\<close> cannot be read, so that hashing fails; it has answered
  \<open>get_all_legal_moves\<close> before and remembers its one legal move. The second state is the
  same without the remembered moves. A transposition table with an entry under the key
  \<open>error_hash\<close>.
\<close>

definition unhashable_fresh :: gamestate where
  "unhashable_fresh =
     mk_state [''.....k'', ''......'', ''......'', ''......'', ''P.....'', ''K.....'']
       (CHR ''w'') None [CHR ''w'' \<mapsto> (5, 0), CHR ''b'' \<mapsto> (0, 5)]"

definition unhashable_state :: gamestate where
  "unhashable_state = unhashable_fresh\<lparr>all_legal_moves_cache := Some [Normal (4, 0) (3, 0) None]\<rparr>"

definition tables_with_sentinel :: tables where
  "tables_with_sentinel = empty_tables\<lparr>tt := [''error_hash'' \<mapsto> stored_entry]\<rparr>"

text \<open>The probe of the move cache at one iteration of the driver's loop.\<close>

definition cache_probe ::
  "move_cache \<Rightarrow> string \<Rightarrow> int \<Rightarrow> int \<Rightarrow> gamestate \<Rightarrow> move option \<times> gamestate" where
  "cache_probe mc pos_hash depth current_depth gs =
     (case mc (pos_hash, current_depth) of
        Some cached_move \<Rightarrow>
          if current_depth = depth
          then (case is_move_legal gs cached_move of
                  (legal, gs1) \<Rightarrow> (if legal then Some cached_move else None, gs1))
          else (None, gs)
      | None \<Rightarrow> (None, gs))"

section \<open>Verified properties\<close>

subsection \<open>Auxiliary facts\<close>

lemma le_NegInf [simp]: "(s \<le> NegInf) = (s = NegInf)"
  by (cases s) simp_all

lemma PosInf_le [simp]: "(PosInf \<le> s) = (s = PosInf)"
  by (cases s) simp_all


lemma py_index_in_range:
  "0 \<le> i \<Longrightarrow> i < int (length xs) \<Longrightarrow> py_index xs i = Some (xs ! nat i)"
  by (simp add: py_index_def py_norm_def Let_def)

lemma cell_wf:
  assumes "wf_board b" "0 \<le> r" "r < 6" "0 \<le> c" "c < 6"
  shows "cell b r c = Some (piece_at b (r, c))"
proof -
  have lb: "int (length b) = 6" using assms(1) by (simp add: wf_board_def)
  have "nat r < length b" using assms(2,3) lb by linarith
  then have "b ! nat r \<in> set b" by (rule nth_mem)
  then have lr: "int (length (b ! nat r)) = 6" using assms(1) by (simp add: wf_board_def)
  have 1: "py_index b r = Some (b ! nat r)"
    by (rule py_index_in_range) (use assms lb in linarith)+
  have 2: "py_index (b ! nat r) c = Some (b ! nat r ! nat c)"
    by (rule py_index_in_range) (use assms lr in linarith)+
  show ?thesis by (simp add: cell_def 1 2 piece_at_def)
qed



subsection \<open>The root dispatcher prefers a mate\<close>







subsection \<open>The evaluation of a stalemate\<close>









subsection \<open>Concrete positions\<close>

lemma legal_moves_uncached:
  assumes "all_legal_moves_cache gs = None" "\<not> needs_promotion_choice gs"
    and "map_option fst (get_all_legal_moves gs) = Some ms"
  shows "get_all_legal_moves gs = Some (ms, gs\<lparr>all_legal_moves_cache := Some ms\<rparr>)"
  using assms by (auto simp: get_all_legal_moves_def split: Option.bind_splits)

lemma initial_legal_list: "map_option fst (get_all_legal_moves initial_position) = Some initial_moves"
  by code_simp

lemma initial_legal:
  "get_all_legal_moves initial_position
     = Some (initial_moves, initial_position\<lparr>all_legal_moves_cache := Some initial_moves\<rparr>)"
  by (rule legal_moves_uncached[OF _ _ initial_legal_list])
     (simp_all add: initial_position_def mk_state_def)


subsection \<open>The state hasher is a function of the position\<close>

lemma same_dict_sort:
  fixes d1 d2 :: "(char \<times> int) list"
  assumes "same_dict d1 d2"
  shows "sort d1 = sort d2"
proof (rule sorted_distinct_set_unique)
  from assms have "distinct d1" "distinct d2"
    by (auto simp: same_dict_def distinct_map)
  then show "distinct (sort d1)" "distinct (sort d2)" by simp_all
  show "sorted (sort d1)" "sorted (sort d2)" by simp_all
  from assms show "set (sort d1) = set (sort d2)" by (simp add: same_dict_def)
qed

lemma hex_digit_range: "\<forall>n \<in> set [0..<16]. hex_digit n \<in> set hex_chars"
  by code_simp

lemma hex_digit_mod: "hex_digit (n mod 16) \<in> set hex_chars"
proof -
  have "n mod 16 \<in> set [0..<16]" by simp
  with hex_digit_range show ?thesis by blast
qed

lemma hexdigest_shape: "length (hexdigest w) = 64 \<and> set (hexdigest w) \<subseteq> set hex_chars"
  by (auto simp: hexdigest_def hex_digit_mod)

text \<open>
  C7. Two states that agree on the board, the side to move, the en-passant target and the
  four castling flags, and whose hands hold the same items for White and for Black
  (inserted in any order), have the same hash, whatever their other fields (move log,
  cached moves, flags) are; the hash is a digest of 256 bits, written as 64 hexadecimal
  digits.
\<close>

theorem hash_deterministic:
  assumes "board s1 = board s2" "current_turn s1 = current_turn s2"
    and "en_passant_target s1 = en_passant_target s2"
    and "can_castle_white_kingside s1 = can_castle_white_kingside s2"
    and "can_castle_white_queenside s1 = can_castle_white_queenside s2"
    and "can_castle_black_kingside s1 = can_castle_black_kingside s2"
    and "can_castle_black_queenside s1 = can_castle_black_queenside s2"
    and "hands s1 = Some h1" "hands s2 = Some h2"
    and "same_dict (dict_get_or h1 (CHR ''w'') []) (dict_get_or h2 (CHR ''w'') [])"
    and "same_dict (dict_get_or h1 (CHR ''b'') []) (dict_get_or h2 (CHR ''b'') [])"
  shows "get_position_hash sha s1 = get_position_hash sha s2
       \<and> length (get_position_hash sha s1) = 64
       \<and> set (get_position_hash sha s1) \<subseteq> set hex_chars"
proof -
  have "state_tuple_of s1 = state_tuple_of s2"
    using assms(1-9) same_dict_sort[OF assms(10)] same_dict_sort[OF assms(11)]
    by (simp add: state_tuple_of_def)
  moreover have "state_tuple_of s1 \<noteq> None" using assms(8) by (simp add: state_tuple_of_def)
  ultimately show ?thesis
    using hexdigest_shape by (auto simp: get_position_hash_def split: option.splits)
qed

theorem hash_deterministic_witness:
  "board hashed_one = board hashed_two \<and> current_turn hashed_one = current_turn hashed_two
   \<and> hands hashed_one \<noteq> hands hashed_two \<and> move_log hashed_one \<noteq> move_log hashed_two
   \<and> get_position_hash toy_digest hashed_one = get_position_hash toy_digest hashed_two
   \<and> length (get_position_hash toy_digest hashed_one) = 64"
proof -
  have sd: "same_dict [(CHR ''P'', 1::int), (CHR ''B'', 2)] [(CHR ''B'', 2), (CHR ''P'', 1)]"
    "same_dict [(CHR ''P'', 1::int)] [(CHR ''P'', 1)]"
    by (auto simp: same_dict_def)
  have "get_position_hash toy_digest hashed_one = get_position_hash toy_digest hashed_two
        \<and> length (get_position_hash toy_digest hashed_one) = 64
        \<and> set (get_position_hash toy_digest hashed_one) \<subseteq> set hex_chars"
    by (rule hash_deterministic[where
          ?h1.0 = "[(CHR ''w'', [(CHR ''P'', 1), (CHR ''B'', 2)]), (CHR ''b'', [(CHR ''P'', 1)])]"
          and ?h2.0 = "[(CHR ''b'', [(CHR ''P'', 1)]), (CHR ''w'', [(CHR ''B'', 2), (CHR ''P'', 1)])]"])
       (simp_all add: hashed_one_def hashed_two_def mk_state_def dict_get_or_def sd)
  moreover have "board hashed_one = board hashed_two" "current_turn hashed_one = current_turn hashed_two"
    "hands hashed_one \<noteq> hands hashed_two" "move_log hashed_one \<noteq> move_log hashed_two"
    by (simp_all add: hashed_one_def hashed_two_def mk_state_def)
  ultimately show ?thesis by blast
qed


subsection \<open>The ordering score never raises on a move of the generator\<close>

lemma mvv_normal:
  assumes "wf_board (board gs)" "is_on_board r1 c1" "is_on_board r2 c2"
  shows "(\<exists>n. mvv_lva_score h gs (py_of_move (Normal (r1, c1) (r2, c2) p)) = Some n)
       \<and> (piece_at (board gs) (r1, c1) = EMPTY_SQUARE \<longrightarrow>
            mvv_lva_score h gs (py_of_move (Normal (r1, c1) (r2, c2) p)) = Some 0)"
proof -
  from assms(2) have r1: "0 \<le> r1" "r1 < 6" "0 \<le> c1" "c1 < 6"
    by (simp_all add: is_on_board_def BOARD_SIZE_def)
  from assms(3) have r2: "0 \<le> r2" "r2 < 6" "0 \<le> c2" "c2 < 6"
    by (simp_all add: is_on_board_def BOARD_SIZE_def)
  have a: "cell (board gs) r1 c1 = Some (piece_at (board gs) (r1, c1))"
    by (rule cell_wf[OF assms(1) r1])
  have v: "cell (board gs) r2 c2 = Some (piece_at (board gs) (r2, c2))"
    by (rule cell_wf[OF assms(1) r2])
  show ?thesis
    by (simp add: mvv_lva_score_def a v Let_def)
qed

lemma mvv_drop:
  "(\<exists>n. mvv_lva_score h gs (py_of_move (Drop code (r, c))) = Some n)
   \<and> (length code \<noteq> 2 \<longrightarrow> mvv_lva_score h gs (py_of_move (Drop code (r, c))) = Some 0)"
proof (cases code)
  case Nil
  then show ?thesis by (simp add: mvv_lva_score_def)
next
  case (Cons c0 rest)
  show ?thesis
  proof (cases rest)
    case Nil
    with Cons show ?thesis by (simp add: mvv_lva_score_def)
  next
    case (Cons c1 rest')
    show ?thesis
    proof (cases rest')
      case Nil
      with \<open>code = c0 # rest\<close> \<open>rest = c1 # rest'\<close> show ?thesis
        by (simp add: mvv_lva_score_def split: option.splits)
    next
      case (Cons c2 rest'')
      with \<open>code = c0 # rest\<close> \<open>rest = c1 # rest'\<close> show ?thesis
        by (simp add: mvv_lva_score_def)
    qed
  qed
qed

lemma mvv_drop_bad_code:
  assumes "\<forall>s. code \<noteq> PStr s \<or> length s \<noteq> 2"
  shows "mvv_lva_score h gs (PTuple [PStr ''drop'', code, pos]) = Some 0"
proof -
  have "(case code of PStr [c0, c1] \<Rightarrow> x c0 c1 | _ \<Rightarrow> Some (0::int)) = Some 0" for x
    using assms by (auto split: pyval.splits list.splits)
  then show ?thesis by (simp add: mvv_lva_score_def)
qed

lemma mvv_unknown:
  assumes "\<not> is_tuple mv \<or> mv = PTuple []"
  shows "mvv_lva_score h gs mv = Some 0"
  using assms by (cases mv) (auto simp: mvv_lva_score_def)

text \<open>
  C10. On a state with a board of six by six cells: for a normal move whose two squares
  are on the board, \<open>mvv_lva_score\<close> returns a number, and 0 when the source square is
  empty; for a drop move it returns a number; when the piece code of a drop is not a
  string of two characters it returns 0; for a value that is not a tuple, or the empty
  tuple, it returns 0. In none of these cases does it raise.
\<close>

theorem mvv_lva_score_total:
  "(wf_board (board gs) \<and> is_on_board r1 c1 \<and> is_on_board r2 c2 \<longrightarrow>
      (\<exists>n. mvv_lva_score h gs (py_of_move (Normal (r1, c1) (r2, c2) p)) = Some n)
      \<and> (piece_at (board gs) (r1, c1) = EMPTY_SQUARE \<longrightarrow>
            mvv_lva_score h gs (py_of_move (Normal (r1, c1) (r2, c2) p)) = Some 0))
   \<and> (\<exists>n. mvv_lva_score h gs (py_of_move (Drop code (r, c))) = Some n)
   \<and> ((\<forall>s. v \<noteq> PStr s \<or> length s \<noteq> 2) \<longrightarrow>
        mvv_lva_score h gs (PTuple [PStr ''drop'', v, pos]) = Some 0)
   \<and> (\<not> is_tuple mv \<or> mv = PTuple [] \<longrightarrow> mvv_lva_score h gs mv = Some 0)"
  using mvv_normal[of gs r1 c1 r2 c2 h p] mvv_drop[of h gs code r c]
    mvv_drop_bad_code[of v h gs pos] mvv_unknown[of mv h gs]
  by blast

theorem mvv_lva_score_total_witness:
  "wf_board (board initial_position) \<and> is_on_board 3 0 \<and> is_on_board 2 0
   \<and> piece_at (board initial_position) (3, 0) = EMPTY_SQUARE
   \<and> mvv_lva_score Map.empty initial_position (py_of_move (Normal (3, 0) (2, 0) None)) = Some 0
   \<and> mvv_lva_score Map.empty initial_position (PTuple [PStr ''drop'', PInt 7, PNone]) = Some 0
   \<and> \<not> is_tuple PNone
   \<and> mvv_lva_score Map.empty initial_position PNone = Some 0"
proof -
  have a: "wf_board (board initial_position)" "is_on_board 3 0" "is_on_board 2 0"
    "piece_at (board initial_position) (3, 0) = EMPTY_SQUARE"
    by (simp_all add: wf_board_def initial_position_def mk_state_def is_on_board_def
          BOARD_SIZE_def piece_at_def EMPTY_SQUARE_def)
  have b: "\<forall>s. PInt 7 \<noteq> PStr s \<or> length s \<noteq> 2" "\<not> is_tuple PNone" by simp_all
  from mvv_lva_score_total[of initial_position 3 0 2 0 Map.empty None "[]" 0 0 "PInt 7" PNone PNone]
    a b show ?thesis by simp
qed

subsection \<open>The probe of the transposition table\<close>

lemma mab_node:
  assumes "\<not> checkmate gs" "\<not> stalemate gs"
    and "get_all_legal_moves gs = Some (legal_moves, gs1)" "legal_moves \<noteq> []"
  shows "minimax_alpha_beta sha gs (Suc d) alpha beta mx tabs =
           (case tt_probe (tt tabs (get_position_hash sha gs)) (Suc d) alpha beta of
              Hit score best_move \<Rightarrow> Some (score, best_move, tabs, gs1)
            | Window alpha' beta' \<Rightarrow>
                search_moves (\<lambda>next_state a b mx t. minimax_alpha_beta sha next_state d a b mx t)
                  gs1 (Suc d) legal_moves (get_position_hash sha gs) alpha' beta' mx tabs)"
  using assms by simp

text \<open>
  C2. At a node of \<open>minimax_alpha_beta\<close> with depth \<open>Suc d\<close>, not flagged terminal, with at
  least one legal move and a table entry \<open>e\<close> for the hash of the position: if the depth
  of \<open>e\<close> is at least the requested depth, an \<open>EXACT\<close> entry is answered at once (score
  and best move of the entry, tables untouched, no child searched); a \<open>LOWERBOUND\<close> entry
  raises alpha to the maximum of alpha and its score, an \<open>UPPERBOUND\<close> entry lowers beta
  to the minimum of beta and its score, and when the window is then closed the entry is
  answered at once, otherwise the moves are searched with the tightened window; an
  entry of smaller depth never answers: the moves are searched with the window as given.
\<close>

theorem tt_probe_semantics:
  assumes "\<not> checkmate gs" "\<not> stalemate gs"
    and "get_all_legal_moves gs = Some (legal_moves, gs1)" "legal_moves \<noteq> []"
    and "tt tabs (get_position_hash sha gs) = Some e"
  shows "(Suc d \<le> e_depth e \<and> e_flag e = EXACT \<longrightarrow>
            minimax_alpha_beta sha gs (Suc d) alpha beta mx tabs
              = Some (e_score e, e_best_move e, tabs, gs1))
       \<and> (Suc d \<le> e_depth e \<and> e_flag e = LOWERBOUND \<longrightarrow>
            minimax_alpha_beta sha gs (Suc d) alpha beta mx tabs
              = (if max alpha (e_score e) \<ge> beta
                 then Some (e_score e, e_best_move e, tabs, gs1)
                 else search_moves
                        (\<lambda>next_state a b mx t. minimax_alpha_beta sha next_state d a b mx t)
                        gs1 (Suc d) legal_moves (get_position_hash sha gs)
                        (max alpha (e_score e)) beta mx tabs))
       \<and> (Suc d \<le> e_depth e \<and> e_flag e = UPPERBOUND \<longrightarrow>
            minimax_alpha_beta sha gs (Suc d) alpha beta mx tabs
              = (if alpha \<ge> min beta (e_score e)
                 then Some (e_score e, e_best_move e, tabs, gs1)
                 else search_moves
                        (\<lambda>next_state a b mx t. minimax_alpha_beta sha next_state d a b mx t)
                        gs1 (Suc d) legal_moves (get_position_hash sha gs)
                        alpha (min beta (e_score e)) mx tabs))
       \<and> (e_depth e < Suc d \<longrightarrow>
            minimax_alpha_beta sha gs (Suc d) alpha beta mx tabs
              = search_moves
                  (\<lambda>next_state a b mx t. minimax_alpha_beta sha next_state d a b mx t)
                  gs1 (Suc d) legal_moves (get_position_hash sha gs) alpha beta mx tabs)"
  unfolding mab_node[OF assms(1-4)] assms(5)
  by (simp add: tt_probe_def Let_def)

theorem tt_probe_semantics_witness:
  "\<not> checkmate initial_position \<and> \<not> stalemate initial_position
   \<and> get_all_legal_moves initial_position
       = Some (initial_moves, initial_position\<lparr>all_legal_moves_cache := Some initial_moves\<rparr>)
   \<and> initial_moves \<noteq> []
   \<and> tt tables_with_entry (get_position_hash toy_digest initial_position) = Some stored_entry
   \<and> Suc 0 \<le> e_depth stored_entry \<and> e_flag stored_entry = EXACT
   \<and> minimax_alpha_beta toy_digest initial_position (Suc 0) NegInf PosInf True tables_with_entry
       = Some (Fin 42, Some (Normal (4, 0) (3, 0) None), tables_with_entry,
               initial_position\<lparr>all_legal_moves_cache := Some initial_moves\<rparr>)"
proof -
  have f: "\<not> checkmate initial_position" "\<not> stalemate initial_position"
    by (simp_all add: initial_position_def mk_state_def)
  have ne: "initial_moves \<noteq> []" by (simp add: initial_moves_def)
  have e: "tt tables_with_entry (get_position_hash toy_digest initial_position) = Some stored_entry"
    by (simp add: tables_with_entry_def)
  have d: "Suc 0 \<le> e_depth stored_entry" "e_flag stored_entry = EXACT"
    "e_score stored_entry = Fin 42" "e_best_move stored_entry = Some (Normal (4, 0) (3, 0) None)"
    by (simp_all add: stored_entry_def)
  from tt_probe_semantics[OF f initial_legal ne e, of 0 NegInf PosInf True] d
  have "minimax_alpha_beta toy_digest initial_position (Suc 0) NegInf PosInf True tables_with_entry
       = Some (Fin 42, Some (Normal (4, 0) (3, 0) None), tables_with_entry,
               initial_position\<lparr>all_legal_moves_cache := Some initial_moves\<rparr>)"
    by simp
  with f initial_legal ne e d show ?thesis by simp
qed

subsection \<open>Killer moves and history scores\<close>







lemma record_cutoff_frame:
  "tt (record_cutoff d m tabs) = tt tabs"
  by (simp add: record_cutoff_def Let_def)















subsection \<open>What a search does to the state it is given\<close>





lemma galm_cached:
  "get_all_legal_moves gs = Some (ms, gs1) \<Longrightarrow> all_legal_moves_cache gs1 = Some ms"
  by (auto simp: get_all_legal_moves_def split: option.splits if_splits Option.bind_splits)

lemma galm_again:
  "get_all_legal_moves gs = Some (ms, gs1) \<Longrightarrow> get_all_legal_moves gs1 = Some (ms, gs1)"
  by (auto simp: get_all_legal_moves_def split: option.splits if_splits Option.bind_splits)







lemma select_root_move_Some: "xs \<noteq> [] \<Longrightarrow> \<exists>m s. select_root_move t xs = Some (m, s)"
  by (cases xs) (auto simp: select_root_move_def split: option.splits)

lemma minimax_try_state:
  assumes "get_all_legal_moves gs = Some (ms, gs1)" "minimax_try e gs d = Some (mv, s, gs')"
  shows "gs' = gs1 \<and> (ms \<noteq> [] \<longrightarrow> mv \<noteq> None)"
proof (cases "ms = []")
  case True
  with assms show ?thesis by (simp add: minimax_try_def)
next
  case False
  then have "map (\<lambda>move. u_minimax_worker e move gs1 d NegInf PosInf (current_turn gs1 = CHR ''w'')) ms \<noteq> []"
    by simp
  from select_root_move_Some[OF this, of "current_turn gs1"] obtain m sc where
    "select_root_move (current_turn gs1)
       (map (\<lambda>move. u_minimax_worker e move gs1 d NegInf PosInf (current_turn gs1 = CHR ''w'')) ms)
     = Some (m, sc)" by blast
  with assms False show ?thesis
    by (auto simp: minimax_try_def split: if_splits)
qed

lemma minimax_state:
  assumes "get_all_legal_moves gs = Some (ms, gs1)" "minimax e gs d = (mv, s, gs')"
  shows "gs' = gs1 \<and> (ms \<noteq> [] \<longrightarrow> mv \<noteq> None)"
proof (cases "minimax_try e gs d")
  case None
  with assms show ?thesis by (auto simp: minimax_def)
next
  case (Some r)
  obtain mv' s' g' where r: "r = (mv', s', g')" by (cases r) auto
  from minimax_try_state[OF assms(1) Some[unfolded r]] Some r assms(2)
  show ?thesis by (simp add: minimax_def)
qed




lemma id_loop_step:
  "id_loop e pos_hash depth (current_depth # rest) (best_move, best_score, mc, gs) =
     (if driver_fault e current_depth then (True, (best_move, best_score, mc, gs))
      else
        (case cache_probe mc pos_hash depth current_depth gs of
           (Some cached_move, gs1) \<Rightarrow> (False, (Some cached_move, best_score, mc, gs1))
         | (None, gs1) \<Rightarrow>
             (case minimax e gs1 (nat current_depth) of
                (None, iter_best_score, gs2) \<Rightarrow> (False, (best_move, best_score, mc, gs2))
              | (Some iter_best_move, iter_best_score, gs2) \<Rightarrow>
                  if score_abs iter_best_score \<ge> Fin 900000
                  then (False, (Some iter_best_move, iter_best_score,
                                mc((pos_hash, current_depth) \<mapsto> iter_best_move), gs2))
                  else id_loop e pos_hash depth rest
                         (Some iter_best_move, iter_best_score,
                          mc((pos_hash, current_depth) \<mapsto> iter_best_move), gs2))))"
  by (simp add: cache_probe_def)


lemma cache_probe_moves:
  assumes "get_all_legal_moves gs = Some (ms, gs1)" "cache_probe mc h depth cd gs = (hit, gs')"
  shows "get_all_legal_moves gs' = Some (ms, gs1)"
  using assms galm_again[OF assms(1)]
  by (auto simp: cache_probe_def is_move_legal_def split: option.splits if_splits)


lemma id_loop_found:
  assumes "ms \<noteq> []"
  shows "get_all_legal_moves gs = Some (ms, gs1) \<Longrightarrow> ds \<noteq> [] \<or> bm \<noteq> None
         \<Longrightarrow> id_loop e h depth ds (bm, bs, mc, gs) = (raised, bm', bs', mc', gs')
         \<Longrightarrow> raised \<or> bm' \<noteq> None"
proof (induction ds arbitrary: bm bs mc gs)
  case Nil
  then show ?case by simp
next
  case (Cons cd rest)
  show ?case
  proof (cases "driver_fault e cd")
    case True
    with Cons.prems show ?thesis by simp
  next
    case False
    obtain hit gsa where p: "cache_probe mc h depth cd gs = (hit, gsa)"
      by (cases "cache_probe mc h depth cd gs")
    note l1 = cache_probe_moves[OF Cons.prems(1) p]
    show ?thesis
    proof (cases hit)
      case (Some cm)
      with Cons.prems False p show ?thesis
        by (auto simp add: id_loop_step simp del: id_loop.simps(2))
    next
      case None
      obtain im isc gs2 where m: "minimax e gsa (nat cd) = (im, isc, gs2)"
        by (cases "minimax e gsa (nat cd)")
      from minimax_state[OF l1 m] assms have g2: "gs2 = gs1" and im: "im \<noteq> None" by auto
      then obtain mv where mv: "im = Some mv" by auto
      have l2: "get_all_legal_moves gs2 = Some (ms, gs1)"
        using galm_again[OF l1] g2 by simp
      show ?thesis
      proof (cases "score_abs isc \<ge> Fin 900000")
        case True
        with Cons.prems(3) False p None m mv show ?thesis
          by (auto simp add: id_loop_step simp del: id_loop.simps(2))
      next
        case nb: False
        with Cons.prems(3) False p None m mv
        have "id_loop e h depth rest (Some mv, isc, mc((h, cd) \<mapsto> mv), gs2)
                = (raised, bm', bs', mc', gs')"
          by (simp add: id_loop_step del: id_loop.simps(2))
        from Cons.IH[OF l2 _ this] show ?thesis by simp
      qed
    qed
  qed
qed


lemma upto_from_1: "1 \<le> depth \<Longrightarrow> [1..depth] = 1 # [2..depth]"
  by (simp add: upto_rec1)


lemma find_best_move_returns_move:
  assumes "\<not> needs_promotion_choice gs" "get_all_legal_moves gs = Some (ms, gs1)" "ms \<noteq> []"
    and "1 \<le> depth"
  shows "\<exists>m mc' gs'. find_best_move e gs depth mc = Some (Some m, mc', gs')"
proof -
  obtain hit gsa where p: "cache_probe mc (get_position_hash (sha256 e) gs) depth depth gs = (hit, gsa)"
    by (cases "cache_probe mc (get_position_hash (sha256 e) gs) depth depth gs")
  from p have p': "(case mc (get_position_hash (sha256 e) gs, depth) of
                 Some cached_move \<Rightarrow>
                   (case is_move_legal gs cached_move of
                      (legal, gs1) \<Rightarrow> (if legal then Some cached_move else None, gs1))
               | None \<Rightarrow> (None, gs)) = (hit, gsa)"
    by (auto simp: cache_probe_def split: option.splits)
  note lg = cache_probe_moves[OF assms(2) p]
  show ?thesis
  proof (cases hit)
    case (Some cm)
    with assms(1) p' show ?thesis by (simp add: find_best_move_def)
  next
    case None
    from assms(3) obtain m1 rest where ms: "ms = m1 # rest" by (cases ms) auto
    show ?thesis
    proof (cases rest)
      case Nil
      with assms(1) p' None lg ms show ?thesis by (simp add: find_best_move_def)
    next
      case (Cons m2 rest')
      obtain raised found bs mc1 gs2 where
        il: "id_loop e (get_position_hash (sha256 e) gs) depth [1..depth] (None, Fin 0, mc, gsa)
               = (raised, found, bs, mc1, gs2)"
        by (cases "id_loop e (get_position_hash (sha256 e) gs) depth [1..depth] (None, Fin 0, mc, gsa)")
           auto
      have ne: "[1..depth] \<noteq> []" using upto_from_1[OF assms(4)] by simp
      from id_loop_found[OF assms(3) lg _ il] ne have "raised \<or> found \<noteq> None" by blast
      with assms(1) p' None lg ms Cons il show ?thesis
        by (auto simp: find_best_move_def)
    qed
  qed
qed

lemma initial_flags:
  "\<not> needs_promotion_choice initial_position" "all_legal_moves_cache initial_position = None"
  "\<not> checkmate initial_position" "\<not> stalemate initial_position"
  by (simp_all add: initial_position_def mk_state_def)

lemma initial_depth_zero:
  "find_best_move repo_env initial_position 0 Map.empty = Some (None, Map.empty, initial_position)"
  by (simp add: find_best_move_def initial_legal initial_moves_def initial_flags)








subsection \<open>The driver at a depth below 1\<close>

text \<open>
  For a depth of at least 1 the driver returns a move whenever the state has legal moves
  (\<open>find_best_move_returns_move\<close> above). The loop \<open>range(1, depth + 1)\<close> is empty for a
  smaller depth, and then nothing assigns \<open>best_move\<close>.
\<close>

lemma id_loop_no_depths: "id_loop e h depth [] (bm, bs, mc, gs) = (False, bm, bs, mc, gs)"
  by simp

text \<open>
  C5. With two or more legal moves, no pending promotion, no entry of the move cache for
  the position and a depth of 0 or less, \<open>find_best_move\<close> returns \<open>None\<close>: no move,
  although the state has legal moves. (With exactly one legal move that move is returned
  at any depth.)
\<close>

theorem no_move_at_depth_zero:
  assumes "\<not> needs_promotion_choice gs"
    and "get_all_legal_moves gs = Some (m1 # m2 # ms, gs1)"
    and "depth \<le> 0"
    and "mc (get_position_hash (sha256 e) gs, depth) = None"
  shows "find_best_move e gs depth mc = Some (None, mc, gs)"
proof -
  from assms(3) have "[1..depth] = []" by simp
  with assms(1,2,4) show ?thesis by (simp add: find_best_move_def)
qed

text \<open>The initial position has fifteen legal moves; at depth 0 the driver returns none.\<close>

theorem no_move_at_depth_zero_witness:
  "get_all_legal_moves initial_position
     = Some (initial_moves, initial_position\<lparr>all_legal_moves_cache := Some initial_moves\<rparr>)
   \<and> length initial_moves = 15
   \<and> find_best_move repo_env initial_position 0 Map.empty = Some (None, Map.empty, initial_position)"
proof -
  have "find_best_move repo_env initial_position 0 Map.empty = Some (None, Map.empty, initial_position)"
    by (rule no_move_at_depth_zero[where ?m1.0 = "hd initial_moves" and ?m2.0 = "hd (tl initial_moves)"
          and ms = "tl (tl initial_moves)"
          and ?gs1.0 = "initial_position\<lparr>all_legal_moves_cache := Some initial_moves\<rparr>"])
       (simp_all add: initial_flags initial_legal, simp add: initial_moves_def)
  then show ?thesis by (simp add: initial_legal) (simp add: initial_moves_def)
qed

subsection \<open>A state that cannot be hashed\<close>

text \<open>
  \<open>unhashable_state\<close> has no readable \<open>hands\<close>, so \<open>get_position_hash\<close> answers
  \<open>error_hash\<close>; its list of legal moves is cached, so that the search can go on.
\<close>

lemma unhashable_hash: "get_position_hash sha unhashable_state = ''error_hash''"
  by (simp add: get_position_hash_def state_tuple_of_def unhashable_state_def
        unhashable_fresh_def mk_state_def)

lemma unhashable_legal:
  "get_all_legal_moves unhashable_state = Some ([Normal (4, 0) (3, 0) None], unhashable_state)"
  by (simp add: get_all_legal_moves_def unhashable_state_def)

lemma unhashable_flags:
  "\<not> checkmate unhashable_state" "\<not> stalemate unhashable_state"
  "\<not> needs_promotion_choice unhashable_state"
  by (simp_all add: unhashable_state_def unhashable_fresh_def mk_state_def)

lemma unhashable_fresh_raises: "get_all_legal_moves unhashable_fresh = None"
  by (simp add: get_all_legal_moves_def generate_all_pseudo_legal_moves_def
        unhashable_fresh_def mk_state_def bind_eq_None_conv)

text \<open>
  C4. On a state whose hash is the \<open>error_hash\<close> sentinel, the sentinel is used as any
  other key. The alpha-beta core reads the transposition table under it: an \<open>EXACT\<close>
  entry stored under \<open>error_hash\<close> is returned as the result of the node. The driver
  writes the move cache under it: after a search the move cache maps
  \<open>(error_hash, depth)\<close> to the chosen move. And when the legal moves of such a state
  are not cached, generating them needs the hands and raises: \<open>find_best_move\<close> fails.
\<close>

theorem sentinel_hash_is_a_cache_key:
  "get_position_hash toy_digest unhashable_state = ''error_hash''
   \<and> minimax_alpha_beta toy_digest unhashable_state (Suc 0) NegInf PosInf True tables_with_sentinel
       = Some (Fin 42, Some (Normal (4, 0) (3, 0) None), tables_with_sentinel, unhashable_state)
   \<and> find_best_move repo_env unhashable_state 1 Map.empty
       = Some (Some (Normal (4, 0) (3, 0) None),
               [(''error_hash'', 1) \<mapsto> Normal (4, 0) (3, 0) None], unhashable_state)
   \<and> find_best_move repo_env unhashable_fresh 1 Map.empty = None"
proof (intro conjI)
  show "get_position_hash toy_digest unhashable_state = ''error_hash''"
    by (rule unhashable_hash)
  show "minimax_alpha_beta toy_digest unhashable_state (Suc 0) NegInf PosInf True tables_with_sentinel
       = Some (Fin 42, Some (Normal (4, 0) (3, 0) None), tables_with_sentinel, unhashable_state)"
    by (simp add: unhashable_flags unhashable_legal unhashable_hash tt_probe_def
          tables_with_sentinel_def stored_entry_def)
  have h: "get_position_hash (sha256 repo_env) unhashable_state = ''error_hash''"
    by (rule unhashable_hash)
  show "find_best_move repo_env unhashable_state 1 Map.empty
       = Some (Some (Normal (4, 0) (3, 0) None),
               [(''error_hash'', 1) \<mapsto> Normal (4, 0) (3, 0) None], unhashable_state)"
    by (simp add: find_best_move_def unhashable_flags unhashable_legal h)
  show "find_best_move repo_env unhashable_fresh 1 Map.empty = None"
    by (simp add: find_best_move_def unhashable_fresh_raises)
       (simp add: unhashable_fresh_def mk_state_def)
qed

subsection \<open>The depth budget of the quiescence search\<close>




end
